theory Spec2Isabelle
  imports Complex_Main "HOL-Library.Sublist"
begin

section \<open>JavaScript strings\<close>

text \<open>
  The text handled by the chunker is a JavaScript string: a sequence of UTF-16 code
  units, whose \<^verbatim>\<open>length\<close> counts code units. A code unit is modelled by its number.
  Error messages and chat texts, of which only ASCII substrings and emptiness are
  inspected, are HOL strings.
\<close>

type_synonym jsstring = "nat list"

text \<open>
  The characters matched by \<^verbatim>\<open>\s\<close> in a JavaScript regular expression, which are also
  the characters removed by \<^verbatim>\<open>String.prototype.trim\<close>: tab, line feed, vertical tab, form
  feed, carriage return, space, no-break space, the Unicode space separators, the line
  and paragraph separators and the byte order mark.
\<close>

definition isSpace :: "nat \<Rightarrow> bool" where
  "isSpace c \<longleftrightarrow>
     c \<in> set [9, 10, 11, 12, 13, 32, 160, 5760, 8232, 8233, 8239, 8287, 12288, 65279]
     \<or> (8192 \<le> c \<and> c \<le> 8202)"

text \<open>The class \<^verbatim>\<open>[.!?]\<close>.\<close>

definition isTerminal :: "nat \<Rightarrow> bool" where
  "isTerminal c \<longleftrightarrow> c = 46 \<or> c = 33 \<or> c = 63"

text \<open>\<^verbatim>\<open>s.trim()\<close>, and its left half.\<close>

definition ltrim :: "jsstring \<Rightarrow> jsstring" where
  "ltrim s = dropWhile isSpace s"

definition trim :: "jsstring \<Rightarrow> jsstring" where
  "trim s = rev (dropWhile isSpace (rev (dropWhile isSpace s)))"

text \<open>
  \<^verbatim>\<open>s.slice(start)\<close> for an integer \<^verbatim>\<open>start\<close>: a negative start counts from the end of the
  string, and both ends are clamped. In particular \<^verbatim>\<open>s.slice(-0)\<close> is the whole string.
\<close>

definition slice :: "jsstring \<Rightarrow> int \<Rightarrow> jsstring" where
  "slice s start =
     (let len = int (length s);
          from = (if start < 0 then max (len + start) 0 else min start len)
      in drop (nat from) s)"

section \<open>The text chunker\<close>

text \<open>
  \<^verbatim>\<open>text.replace(/\s+/g, ' ')\<close>: every maximal run of white space becomes one space.
\<close>

function collapseSpaces :: "jsstring \<Rightarrow> jsstring" where
  "collapseSpaces [] = []"
| "collapseSpaces (c # cs) =
     (if isSpace c then 32 # collapseSpaces (dropWhile isSpace cs)
      else c # collapseSpaces cs)"
  by pat_completeness auto
termination
  by (relation "measure length") (auto simp: less_Suc_eq_le length_dropWhile_le)

text \<open>
  \<^verbatim>\<open>.replace(/\n\s*\n/g, '\n')\<close>: at a line feed, the greedy \<^verbatim>\<open>\s*\<close> runs over the
  white space that follows and backtracks to the last line feed in it; the match is
  replaced by one line feed and the scan goes on behind it.
\<close>

fun lastNewline :: "jsstring \<Rightarrow> nat option" where
  "lastNewline [] = None"
| "lastNewline (c # cs) =
     (case lastNewline cs of
        Some k \<Rightarrow> Some (Suc k)
      | None \<Rightarrow> if c = 10 then Some 0 else None)"

function removeEmptyLines :: "jsstring \<Rightarrow> jsstring" where
  "removeEmptyLines [] = []"
| "removeEmptyLines (c # cs) =
     (if c = 10 then
        (case lastNewline (takeWhile isSpace cs) of
           Some k \<Rightarrow> 10 # removeEmptyLines (drop (Suc k) cs)
         | None \<Rightarrow> c # removeEmptyLines cs)
      else c # removeEmptyLines cs)"
  by pat_completeness auto
termination
  by (relation "measure length") auto

definition cleanText :: "jsstring \<Rightarrow> jsstring" where
  "cleanText text = trim (removeEmptyLines (collapseSpaces text))"

text \<open>
  \<^verbatim>\<open>cleanText.split(/(?<=[.!?])\s+/)\<close>: the separators are the runs of white space that
  stand right behind a full stop, an exclamation mark or a question mark. \<open>prev\<close> is
  the code unit before the scan position and \<open>cur\<close> the piece read so far.
\<close>

function splitSentences :: "nat option \<Rightarrow> jsstring \<Rightarrow> jsstring \<Rightarrow> jsstring list" where
  "splitSentences prev cur [] = [cur]"
| "splitSentences prev cur (c # cs) =
     (if isSpace c \<and> (case prev of Some p \<Rightarrow> isTerminal p | None \<Rightarrow> False)
      then cur # splitSentences (Some 32) [] (dropWhile isSpace cs)
      else splitSentences (Some c) (cur @ [c]) cs)"
  by pat_completeness auto
termination
  by (relation "measure (\<lambda>(prev, cur, s). length s)")
     (auto simp: less_Suc_eq_le length_dropWhile_le)

text \<open>\<^verbatim>\<open>.filter(s => s.trim().length > 0)\<close> on the pieces.\<close>

definition sentencesOf :: "jsstring \<Rightarrow> jsstring list" where
  "sentencesOf clean = filter (\<lambda>s. length (trim s) > 0) (splitSentences None [] clean)"

record chunk =
  content :: jsstring
  startIndex :: int
  endIndex :: int

text \<open>
  The accumulation loop of \<^verbatim>\<open>chunkText\<close>, over the sentences still to read, with the
  loop variables \<^verbatim>\<open>currentChunk\<close> and \<^verbatim>\<open>currentStartIndex\<close>. The chunks are returned in
  the order the source pushes them; the last equation is the code behind the loop.
\<close>

primrec chunkLoop :: "int \<Rightarrow> int \<Rightarrow> jsstring list \<Rightarrow> jsstring \<Rightarrow> int \<Rightarrow> chunk list" where
  "chunkLoop maxChunkSize overlap [] currentChunk currentStartIndex =
     (if length (trim currentChunk) > 0
      then [\<lparr>content = trim currentChunk, startIndex = currentStartIndex,
             endIndex = currentStartIndex + int (length currentChunk)\<rparr>]
      else [])"
| "chunkLoop maxChunkSize overlap (s # ss) currentChunk currentStartIndex =
     (let sentence = trim s;
          potentialChunk = currentChunk @ (if currentChunk \<noteq> [] then [32] else []) @ sentence
      in if int (length potentialChunk) > maxChunkSize \<and> length currentChunk > 0
         then
           (let endIdx = currentStartIndex + int (length currentChunk);
                overlapText = slice currentChunk (- overlap)
            in \<lparr>content = trim currentChunk, startIndex = currentStartIndex, endIndex = endIdx\<rparr>
               # chunkLoop maxChunkSize overlap ss (overlapText @ [32] @ sentence)
                   (max 0 (endIdx - overlap)))
         else chunkLoop maxChunkSize overlap ss potentialChunk currentStartIndex)"

text \<open>The chunks of the loop, before the filter on their length.\<close>

definition loopChunks :: "jsstring \<Rightarrow> int \<Rightarrow> int \<Rightarrow> chunk list" where
  "loopChunks text maxChunkSize overlap =
     chunkLoop maxChunkSize overlap (sentencesOf (cleanText text)) [] 0"

definition chunkText :: "jsstring \<Rightarrow> int \<Rightarrow> int \<Rightarrow> chunk list" where
  "chunkText text maxChunkSize overlap =
     (if text = [] then []
      else if int (length (cleanText text)) \<le> maxChunkSize
      then [\<lparr>content = cleanText text, startIndex = 0,
             endIndex = int (length (cleanText text))\<rparr>]
      else filter (\<lambda>c. length (content c) > 50) (loopChunks text maxChunkSize overlap))"

text \<open>
  The last \<open>n\<close> code units of a string (all of it when it is shorter), a string that
  is empty or ends in a visible code unit, and the overlap relation between a chunk and
  its successor: the tail of the first, without leading white space, starts the second.
\<close>

definition lastChars :: "nat \<Rightarrow> jsstring \<Rightarrow> jsstring" where
  "lastChars n s = drop (length s - n) s"

definition endsVisible :: "jsstring \<Rightarrow> bool" where
  "endsVisible s \<longleftrightarrow> s = [] \<or> \<not> isSpace (last s)"

definition overlapsInto :: "int \<Rightarrow> chunk \<Rightarrow> chunk \<Rightarrow> bool" where
  "overlapsInto overlap a b \<longleftrightarrow>
     prefix (ltrim (lastChars (nat overlap) (content a))) (content b)"

text \<open>ASCII text as code units, for writing inputs down.\<close>

definition js :: "string \<Rightarrow> jsstring" where
  "js s = map of_char s"

section \<open>The retry policy\<close>

text \<open>\<^verbatim>\<open>s.includes(sub)\<close>: \<open>sub\<close> occurs in \<open>s\<close> as a contiguous substring.\<close>

fun str_includes :: "string \<Rightarrow> string \<Rightarrow> bool" where
  "str_includes [] sub = (sub = [])"
| "str_includes (c # cs) sub = (prefix sub (c # cs) \<or> str_includes cs sub)"

text \<open>
  What a \<^verbatim>\<open>throw\<close> carries: an \<^verbatim>\<open>Error\<close> with its message, or \<^verbatim>\<open>undefined\<close> (the
  variable \<^verbatim>\<open>lastError\<close> before any assignment).
\<close>

datatype thrown = Error string | ThrownUndefined

text \<open>The classification of \<^verbatim>\<open>retryWithBackoff\<close>, by substrings of the error message.\<close>

definition isRetryable :: "string \<Rightarrow> bool" where
  "isRetryable message \<longleftrightarrow>
     str_includes message ''503'' \<or> str_includes message ''429'' \<or>
     str_includes message ''500'' \<or> str_includes message ''overloaded'' \<or>
     str_includes message ''network''"

text \<open>
  \<^verbatim>\<open>baseDelay * Math.pow(2, attempt) + Math.random() * 1000\<close>, in milliseconds; \<open>rnd\<close> is
  the value of \<^verbatim>\<open>Math.random()\<close>, a number from 0 up to but not including 1.
\<close>

definition backoffDelay :: "real \<Rightarrow> nat \<Rightarrow> real \<Rightarrow> real" where
  "backoffDelay baseDelay attempt rnd = baseDelay * 2 ^ attempt + rnd * 1000"

text \<open>
  A call of \<^verbatim>\<open>retryWithBackoff\<close> returns a value or throws; the model also reports how
  often the operation was invoked and the delays that were slept, in order.
\<close>

record 'a retry_result =
  outcome :: "thrown + 'a"
  attempts :: nat
  delays :: "real list"

text \<open>
  The loop \<^verbatim>\<open>for (let attempt = 0; attempt <= maxRetries; attempt++)\<close>. The operation is
  given by the outcome of each of its invocations, \<open>Inl\<close> the message of the error it
  throws; \<open>random k\<close> is the value \<^verbatim>\<open>Math.random()\<close> returns after the failure of
  attempt \<open>k\<close>. The last branch is the \<^verbatim>\<open>throw lastError!\<close> behind the loop.
\<close>

function retryLoop ::
  "(nat \<Rightarrow> string + 'a) \<Rightarrow> int \<Rightarrow> real \<Rightarrow> (nat \<Rightarrow> real) \<Rightarrow> nat \<Rightarrow> thrown \<Rightarrow> real list
    \<Rightarrow> 'a retry_result" where
  "retryLoop operation maxRetries baseDelay random attempt lastError slept =
     (if int attempt \<le> maxRetries then
        (case operation attempt of
           Inr v \<Rightarrow> \<lparr>outcome = Inr v, attempts = Suc attempt, delays = slept\<rparr>
         | Inl message \<Rightarrow>
             if int attempt = maxRetries
             then \<lparr>outcome = Inl (Error message), attempts = Suc attempt, delays = slept\<rparr>
             else if \<not> isRetryable message
             then \<lparr>outcome = Inl (Error message), attempts = Suc attempt, delays = slept\<rparr>
             else retryLoop operation maxRetries baseDelay random (Suc attempt) (Error message)
                    (slept @ [backoffDelay baseDelay attempt (random attempt)]))
      else \<lparr>outcome = Inl lastError, attempts = attempt, delays = slept\<rparr>)"
  by pat_completeness auto
termination
  by (relation "measure (\<lambda>(operation, maxRetries, baseDelay, random, attempt, lastError, slept).
        nat (maxRetries + 1 - int attempt))") auto

declare retryLoop.simps [simp del]

definition retryWithBackoff ::
  "(nat \<Rightarrow> string + 'a) \<Rightarrow> int \<Rightarrow> real \<Rightarrow> (nat \<Rightarrow> real) \<Rightarrow> 'a retry_result" where
  "retryWithBackoff operation maxRetries baseDelay random =
     retryLoop operation maxRetries baseDelay random 0 ThrownUndefined []"

section \<open>Provider calls\<close>

text \<open>The decimal digits of a number, as a template literal prints an HTTP status.\<close>

function show_nat :: "nat \<Rightarrow> string" where
  "show_nat n =
     (if n < 10 then [''0123456789'' ! n]
      else show_nat (n div 10) @ [''0123456789'' ! (n mod 10)])"
  by pat_completeness auto
termination
  by (relation "measure id") auto

declare show_nat.simps [simp del]

text \<open>
  What \<^verbatim>\<open>await fetch(...)\<close> gives: it throws (a network failure, with the message of the
  error), or it returns a response with its status, its body as \<^verbatim>\<open>response.text()\<close>
  reads it, and what \<^verbatim>\<open>response.json()\<close> and the optional chain into the parsed body
  give: \<open>Inl\<close> the message when parsing throws, \<open>Inr None\<close> when the field is missing,
  \<open>Inr (Some x)\<close> the field.
\<close>

datatype 'a http_response =
  HttpResponse (status: nat) (bodyText: string) (bodyJson: "string + 'a option")

datatype 'a fetched = FetchThrows string | Fetched "'a http_response"

text \<open>\<^verbatim>\<open>response.ok\<close>.\<close>

definition ok :: "'a http_response \<Rightarrow> bool" where
  "ok r \<longleftrightarrow> 200 \<le> status r \<and> status r \<le> 299"

text \<open>
  One run of the operation that \<^verbatim>\<open>callGeminiAPI\<close> hands to \<^verbatim>\<open>retryWithBackoff\<close>. An
  empty answer is falsy, as a missing one.
\<close>

fun geminiAttempt :: "string fetched \<Rightarrow> string + string" where
  "geminiAttempt (FetchThrows message) = Inl message"
| "geminiAttempt (Fetched r) =
     (if \<not> ok r then
        (if status r = 503 then Inl (''GEMINI_OVERLOADED: '' @ bodyText r)
         else if status r = 429 then Inl (''GEMINI_RATE_LIMITED: '' @ bodyText r)
         else Inl (''Gemini API failed: '' @ show_nat (status r) @ '' - '' @ bodyText r))
      else
        (case bodyJson r of
           Inl message \<Rightarrow> Inl message
         | Inr None \<Rightarrow> Inl ''No response generated from Gemini''
         | Inr (Some aiResponse) \<Rightarrow>
             if aiResponse = [] then Inl ''No response generated from Gemini''
             else Inr aiResponse))"

definition callGeminiAPI :: "(nat \<Rightarrow> string fetched) \<Rightarrow> (nat \<Rightarrow> real) \<Rightarrow> string retry_result" where
  "callGeminiAPI fetch random = retryWithBackoff (\<lambda>k. geminiAttempt (fetch k)) 3 1000 random"

fun openaiAttempt :: "string fetched \<Rightarrow> string + string" where
  "openaiAttempt (FetchThrows message) = Inl message"
| "openaiAttempt (Fetched r) =
     (if \<not> ok r then Inl (''OpenAI API failed: '' @ show_nat (status r) @ '' - '' @ bodyText r)
      else
        (case bodyJson r of
           Inl message \<Rightarrow> Inl message
         | Inr None \<Rightarrow> Inl ''No response generated from OpenAI''
         | Inr (Some aiResponse) \<Rightarrow>
             if aiResponse = [] then Inl ''No response generated from OpenAI''
             else Inr aiResponse))"

definition callOpenAIFallback :: "(nat \<Rightarrow> string fetched) \<Rightarrow> (nat \<Rightarrow> real) \<Rightarrow> string retry_result" where
  "callOpenAIFallback fetch random = retryWithBackoff (\<lambda>k. openaiAttempt (fetch k)) 2 1000 random"

text \<open>
  The operation of the chat function that embeds the user's message, and its call
  through \<^verbatim>\<open>retryWithBackoff\<close>. An embedding is an array, which is truthy even when empty.
\<close>

fun embeddingAttempt :: "real list fetched \<Rightarrow> string + real list" where
  "embeddingAttempt (FetchThrows message) = Inl message"
| "embeddingAttempt (Fetched r) =
     (if \<not> ok r then Inl (''Embedding API failed: '' @ show_nat (status r) @ '' - '' @ bodyText r)
      else
        (case bodyJson r of
           Inl message \<Rightarrow> Inl message
         | Inr None \<Rightarrow> Inl ''Failed to generate query embedding''
         | Inr (Some embedding) \<Rightarrow> Inr embedding))"

definition queryEmbedding :: "(nat \<Rightarrow> real list fetched) \<Rightarrow> (nat \<Rightarrow> real) \<Rightarrow> real list retry_result" where
  "queryEmbedding fetch random = retryWithBackoff (\<lambda>k. embeddingAttempt (fetch k)) 3 1000 random"

text \<open>
  \<^verbatim>\<open>generateAIResponse\<close>. The environment gives the two API keys, what each request to
  the two providers gives, and the random draws of the two retry loops. The result is
  the returned pair of answer and provider name, or what is thrown; the model also
  reports how many requests went to each provider.
\<close>

record gen_env =
  geminiApiKey :: "string option"
  openaiApiKey :: "string option"
  geminiFetch :: "nat \<Rightarrow> string fetched"
  openaiFetch :: "nat \<Rightarrow> string fetched"
  geminiRandom :: "nat \<Rightarrow> real"
  openaiRandom :: "nat \<Rightarrow> real"

record gen_result =
  generated :: "thrown + string \<times> string"
  geminiCalls :: nat
  openaiCalls :: nat

text \<open>An environment variable is used when it is set and not empty.\<close>

definition truthy :: "string option \<Rightarrow> bool" where
  "truthy key \<longleftrightarrow> (case key of None \<Rightarrow> False | Some k \<Rightarrow> k \<noteq> [])"

text \<open>The test of the \<^verbatim>\<open>catch\<close> block that decides whether the fallback is tried.\<close>

definition fallbackEligible :: "string \<Rightarrow> bool" where
  "fallbackEligible message \<longleftrightarrow>
     str_includes message ''GEMINI_OVERLOADED'' \<or> str_includes message ''GEMINI_RATE_LIMITED''"

definition generateAIResponse :: "gen_env \<Rightarrow> gen_result" where
  "generateAIResponse env =
     (if truthy (geminiApiKey env) then
        (let g = callGeminiAPI (geminiFetch env) (geminiRandom env) in
         case outcome g of
           Inr response \<Rightarrow>
             \<lparr>generated = Inr (response, ''Gemini''), geminiCalls = attempts g, openaiCalls = 0\<rparr>
         | Inl ThrownUndefined \<Rightarrow>
             \<lparr>generated = Inl (Error ''Cannot read properties of undefined (reading 'message')''),
              geminiCalls = attempts g, openaiCalls = 0\<rparr>
         | Inl (Error message) \<Rightarrow>
             if fallbackEligible message \<and> truthy (openaiApiKey env) then
               (let f = callOpenAIFallback (openaiFetch env) (openaiRandom env) in
                case outcome f of
                  Inr response \<Rightarrow>
                    \<lparr>generated = Inr (response, ''OpenAI (fallback)''),
                     geminiCalls = attempts g, openaiCalls = attempts f\<rparr>
                | Inl fallbackError \<Rightarrow>
                    \<lparr>generated = Inl (Error message),
                     geminiCalls = attempts g, openaiCalls = attempts f\<rparr>)
             else \<lparr>generated = Inl (Error message), geminiCalls = attempts g, openaiCalls = 0\<rparr>)
      else if truthy (openaiApiKey env) then
        (let f = callOpenAIFallback (openaiFetch env) (openaiRandom env) in
         case outcome f of
           Inr response \<Rightarrow>
             \<lparr>generated = Inr (response, ''OpenAI''), geminiCalls = 0, openaiCalls = attempts f\<rparr>
         | Inl error \<Rightarrow> \<lparr>generated = Inl error, geminiCalls = 0, openaiCalls = attempts f\<rparr>)
      else \<lparr>generated = Inl (Error ''No AI API keys configured''), geminiCalls = 0, openaiCalls = 0\<rparr>)"

text \<open>
  Two environments with both keys set, where Gemini answers every request with 503 and
  the body \<^verbatim>\<open>overloaded\<close>: in the first OpenAI answers, in the second it answers every
  request with 500.
\<close>

definition overloadedEnv :: gen_env where
  "overloadedEnv =
     \<lparr>geminiApiKey = Some ''g-key'', openaiApiKey = Some ''o-key'',
      geminiFetch = (\<lambda>k. Fetched (HttpResponse 503 ''overloaded'' (Inr None))),
      openaiFetch = (\<lambda>k. Fetched (HttpResponse 200 [] (Inr (Some ''An answer.'')))),
      geminiRandom = (\<lambda>k. 0), openaiRandom = (\<lambda>k. 0)\<rparr>"

definition bothDownEnv :: gen_env where
  "bothDownEnv =
     overloadedEnv\<lparr>openaiFetch := (\<lambda>k. Fetched (HttpResponse 500 ''down'' (Inr None)))\<rparr>"

section \<open>Stored data and retrieval\<close>

text \<open>
  The tables \<^verbatim>\<open>documents\<close> and \<^verbatim>\<open>document_chunks\<close> of the migration, as lists of rows with
  the columns the functions read or write. A nullable column is an option. The type
  \<open>'v\<close> of an embedding and the distance operator \<^verbatim>\<open><=>\<close> on it come from the vector
  extension of the database; the operator is a parameter of the model, and its double
  precision results are taken as real numbers.
\<close>

type_synonym uuid = string

record document =
  doc_id :: uuid
  doc_user_id :: uuid
  doc_name :: string
  file_path :: string
  doc_status :: string
  total_pages :: "int option"
  total_chunks :: "int option"
  error_message :: "string option"

record 'v document_chunk =
  chunk_id :: uuid
  document_id :: uuid
  chunk_user_id :: uuid
  chunk_content :: jsstring
  page_number :: int
  chunk_index :: int
  chunk_embedding :: "'v option"

text \<open>A row of the table that \<^verbatim>\<open>match_documents\<close> returns.\<close>

record match_row =
  row_id :: uuid
  row_document_id :: uuid
  row_content :: jsstring
  row_page_number :: int
  row_chunk_index :: int
  similarity :: real
  documents :: "uuid \<times> string \<times> uuid"

text \<open>\<^verbatim>\<open>FROM document_chunks dc JOIN documents d ON dc.document_id = d.id\<close>.\<close>

definition joined :: "'v document_chunk list \<Rightarrow> document list \<Rightarrow> ('v document_chunk \<times> document) list" where
  "joined chunks docs =
     concat (map (\<lambda>dc. map (\<lambda>d. (dc, d)) (filter (\<lambda>d. document_id dc = doc_id d) docs)) chunks)"

text \<open>
  Name resolution in the body of the function. The query ranges over the aliases
  \<^verbatim>\<open>dc\<close> and \<^verbatim>\<open>d\<close>, with the columns of their tables as the migration creates them; the
  function has its four parameters and the columns of the table it returns as
  variables. An unqualified name that is a column of both tables is rejected as
  ambiguous; so is a name that is a column of one table and a variable of the function,
  since nothing in the migration changes the default \<^verbatim>\<open>plpgsql.variable_conflict = error\<close>.
\<close>

datatype sql_error = AmbiguousColumn string | UndefinedColumn string | NegativeLimit

datatype reference = TableColumn string | FunctionVariable

definition documentChunksColumns :: "string list" where
  "documentChunksColumns =
     [''id'', ''document_id'', ''user_id'', ''content'', ''page_number'', ''chunk_index'',
      ''embedding'', ''token_count'', ''created_at'']"

definition documentsColumns :: "string list" where
  "documentsColumns =
     [''id'', ''user_id'', ''name'', ''original_name'', ''file_path'', ''file_size'', ''mime_type'',
      ''status'', ''total_pages'', ''total_chunks'', ''error_message'', ''created_at'',
      ''updated_at'']"

definition functionVariables :: "string list" where
  "functionVariables =
     [''query_embedding'', ''match_threshold'', ''match_count'', ''user_id'',
      ''id'', ''document_id'', ''content'', ''page_number'', ''chunk_index'', ''similarity'',
      ''documents'']"

definition resolveName :: "string \<Rightarrow> sql_error + reference" where
  "resolveName name =
     (case filter (\<lambda>(alias, columns). name \<in> set columns)
             [(''dc'', documentChunksColumns), (''d'', documentsColumns)] of
        [] \<Rightarrow>
          if name \<in> set functionVariables then Inr FunctionVariable
          else Inl (UndefinedColumn name)
      | [(alias, columns)] \<Rightarrow>
          if name \<in> set functionVariables then Inl (AmbiguousColumn name)
          else Inr (TableColumn alias)
      | _ \<Rightarrow> Inl (AmbiguousColumn name))"

text \<open>
  The test \<^verbatim>\<open>user_id IS NULL\<close>, for what the unqualified name refers to. The column
  \<^verbatim>\<open>user_id\<close> of either table is declared \<^verbatim>\<open>NOT NULL\<close>.
\<close>

definition userIdIsNull :: "reference \<Rightarrow> uuid option \<Rightarrow> bool" where
  "userIdIsNull userId user_id =
     (case userId of FunctionVariable \<Rightarrow> user_id = None | TableColumn alias \<Rightarrow> False)"

text \<open>
  The \<^verbatim>\<open>WHERE\<close> clause on a joined pair, which passes with the distance it computed. A
  chunk without an embedding has a null distance and fails the third test.
\<close>

definition selected ::
  "reference \<Rightarrow> ('v \<Rightarrow> 'v \<Rightarrow> real) \<Rightarrow> 'v \<Rightarrow> real \<Rightarrow> uuid option
    \<Rightarrow> 'v document_chunk \<times> document \<Rightarrow> (real \<times> 'v document_chunk \<times> document) option" where
  "selected userId distance query_embedding match_threshold user_id = (\<lambda>(dc, d).
     case chunk_embedding dc of
       None \<Rightarrow> None
     | Some e \<Rightarrow>
         if (userIdIsNull userId user_id \<or> Some (doc_user_id d) = user_id)
            \<and> doc_status d = ''completed''
            \<and> 1 - distance e query_embedding > match_threshold
         then Some (distance e query_embedding, dc, d)
         else None)"

text \<open>The \<^verbatim>\<open>SELECT\<close> list.\<close>

definition toRow :: "real \<times> 'v document_chunk \<times> document \<Rightarrow> match_row" where
  "toRow = (\<lambda>(distance, dc, d).
     \<lparr>row_id = chunk_id dc, row_document_id = document_id dc, row_content = chunk_content dc,
      row_page_number = page_number dc, row_chunk_index = chunk_index dc,
      similarity = 1 - distance, documents = (doc_id d, doc_name d, doc_user_id d)\<rparr>)"

text \<open>
  The rows of the query once its names are resolved: the selected pairs in ascending
  order of distance, cut at \<^verbatim>\<open>match_count\<close>.
\<close>

definition matchRows ::
  "reference \<Rightarrow> ('v \<Rightarrow> 'v \<Rightarrow> real) \<Rightarrow> 'v document_chunk list \<Rightarrow> document list
    \<Rightarrow> 'v \<Rightarrow> real \<Rightarrow> int \<Rightarrow> uuid option \<Rightarrow> match_row list" where
  "matchRows userId distance chunks docs query_embedding match_threshold match_count user_id =
     map toRow (take (nat match_count) (sort_key fst
       (List.map_filter (selected userId distance query_embedding match_threshold user_id)
          (joined chunks docs))))"

text \<open>
  A call of the function: the query is analysed when it is first run, so an error of
  the name resolution is raised before any row is read; the database rejects a negative
  \<^verbatim>\<open>LIMIT\<close>.
\<close>

definition match_documents ::
  "('v \<Rightarrow> 'v \<Rightarrow> real) \<Rightarrow> 'v document_chunk list \<Rightarrow> document list
    \<Rightarrow> 'v \<Rightarrow> real \<Rightarrow> int \<Rightarrow> uuid option \<Rightarrow> sql_error + match_row list" where
  "match_documents distance chunks docs query_embedding match_threshold match_count user_id =
     (case resolveName ''user_id'' of
        Inl err \<Rightarrow> Inl err
      | Inr userId \<Rightarrow>
          if match_count < 0 then Inl NegativeLimit
          else Inr (matchRows userId distance chunks docs query_embedding match_threshold
                      match_count user_id))"

section \<open>Document ingestion\<close>


text \<open>
  What one invocation of the function meets outside itself, call by call: the request
  body as \<^verbatim>\<open>await req.json()\<close> gives it in the \<^verbatim>\<open>try\<close> block and again in the \<^verbatim>\<open>catch\<close>
  block (\<open>Inl\<close> the message when the call throws; the body of a request can be read
  once, so a runtime that follows the Fetch standard rejects the second call), the
  error of the download if any, the extracted page count and text or the error of the
  extraction, the API key, the answer of the embedding endpoint for each chunk, the id the
  database gives each new chunk, and the errors, if any, of the insert of each chunk and
  of the two status updates. The page of a chunk is
  \<^verbatim>\<open>Math.ceil((startIndex / text.length) * totalPages) || 1\<close>, a computation in double
  precision numbers: the model takes its result from the environment, as a function of
  the start index, the length of the text and the number of pages.
\<close>

record 'v process_env =
  requestBody :: "string + uuid"
  requestBodyAgain :: "string + uuid"
  downloadError :: "string option"
  extraction :: "string + int \<times> jsstring"
  embeddingApiKey :: "string option"
  embeddingFetch :: "nat \<Rightarrow> 'v fetched"
  newChunkId :: "nat \<Rightarrow> uuid"
  pageNumber :: "int \<Rightarrow> nat \<Rightarrow> int \<Rightarrow> int"
  insertError :: "nat \<Rightarrow> string option"
  updateCompletedError :: "string option"
  updateFailedError :: "string option"




text \<open>
  The body of the loop for chunk \<open>i\<close>: the embedding that is stored, or \<open>None\<close> when
  the chunk is skipped (the request throws, the status is not ok, the body does not
  parse or holds no embedding, or the insert fails; each ends in \<^verbatim>\<open>continue\<close>).
\<close>

definition embedChunk :: "'v process_env \<Rightarrow> nat \<Rightarrow> 'v option" where
  "embedChunk env i =
     (case embeddingFetch env i of
        FetchThrows message \<Rightarrow> None
      | Fetched r \<Rightarrow>
          if \<not> ok r then None
          else (case bodyJson r of
                  Inl message \<Rightarrow> None
                | Inr None \<Rightarrow> None
                | Inr (Some e) \<Rightarrow> if insertError env i = None then Some e else None))"

text \<open>The loop over the chunks, from index \<open>i\<close>, adding rows to the chunk table.\<close>

primrec storeChunks ::
  "'v process_env \<Rightarrow> document \<Rightarrow> nat \<Rightarrow> int \<Rightarrow> nat \<Rightarrow> chunk list \<Rightarrow> 'v document_chunk list
    \<Rightarrow> 'v document_chunk list" where
  "storeChunks env doc len pages i [] rows = rows"
| "storeChunks env doc len pages i (c # cs) rows =
     storeChunks env doc len pages (Suc i) cs
       (case embedChunk env i of
          None \<Rightarrow> rows
        | Some e \<Rightarrow>
            rows @ [\<lparr>chunk_id = newChunkId env i, document_id = doc_id doc,
                     chunk_user_id = doc_user_id doc, chunk_content = content c,
                     page_number = pageNumber env (startIndex c) len pages, chunk_index = int i,
                     chunk_embedding = Some e\<rparr>])"






section \<open>The chat function\<close>

text \<open>
  A retrieved chunk as the chat function reads it (its content, its page number and the
  title under \<^verbatim>\<open>chunk.documents?.title\<close>), a source citation, and a row of the table
  \<^verbatim>\<open>chat_messages\<close>.
\<close>

record retrieved_chunk =
  retrieved_content :: jsstring
  retrieved_page :: int
  retrieved_title :: "string option"

record source_ref =
  document_title :: string
  source_excerpt :: jsstring
  source_page :: int

record chat_message =
  session_id :: string
  role :: string
  message_content :: string
  message_sources :: "source_ref list"

text \<open>
  What one chat request meets outside itself: the parsed body with the session, the
  message and the user, or the message of the error when parsing throws; the
  environment of the generation client; the answers of the embedding endpoint and the
  random draws of its retry loop; the result of the call of \<^verbatim>\<open>match_documents\<close> and of the
  fallback query (an error, or the data, which can be null); and the error of the insert
  of the assistant message, if any. The providers answer as the environment says,
  whatever the prompt.
\<close>

record chat_env =
  chatBody :: "string + string \<times> string \<times> uuid"
  providers :: gen_env
  queryFetch :: "nat \<Rightarrow> real list fetched"
  queryRandom :: "nat \<Rightarrow> real"
  searchResult :: "string + retrieved_chunk list option"
  fallbackResult :: "string + retrieved_chunk list option"
  messageInsertError :: "string option"

text \<open>
  The responses: status 200 with the response text, the sources, the provider when there
  is one and the error tag when there is one; or status 500 with an error message.
\<close>

datatype chat_response =
  Response200 (response_text: string) (response_sources: "source_ref list")
    (response_provider: "string option") (response_error: "string option")
| Response500 string

definition noDocumentsResponse :: string where
  "noDocumentsResponse =
     ''I couldn't find relevant documents for your query. '' @
     ''Please check if the documents are correctly processed.''"

definition generalResponse :: string where
  "generalResponse =
     ''I don't have any document content to reference. Please upload some documents first, '' @
     ''and make sure they are properly processed.''"

text \<open>\<^verbatim>\<open>data || []\<close>, and the variable \<^verbatim>\<open>chunks\<close> after the search and its fallback.\<close>

definition orEmpty :: "'a list option \<Rightarrow> 'a list" where
  "orEmpty data = (case data of None \<Rightarrow> [] | Some rows \<Rightarrow> rows)"

definition retrievedChunks :: "chat_env \<Rightarrow> retrieved_chunk list" where
  "retrievedChunks env =
     (case searchResult env of
        Inl searchError \<Rightarrow>
          (case fallbackResult env of
             Inl fallbackError \<Rightarrow> []
           | Inr fallbackChunks \<Rightarrow> orEmpty fallbackChunks)
      | Inr searchResults \<Rightarrow> orEmpty searchResults)"

text \<open>\<^verbatim>\<open>Array.prototype.join\<close>.\<close>

fun joinWith :: "'a list \<Rightarrow> 'a list list \<Rightarrow> 'a list" where
  "joinWith sep [] = []"
| "joinWith sep [x] = x"
| "joinWith sep (x # y # ys) = x @ sep @ joinWith sep (y # ys)"

definition toSource :: "retrieved_chunk \<Rightarrow> source_ref" where
  "toSource c =
     \<lparr>document_title =
        (case retrieved_title c of
           None \<Rightarrow> ''Document''
         | Some title \<Rightarrow> if title = [] then ''Document'' else title),
      source_excerpt = take 100 (retrieved_content c) @ js ''...'',
      source_page = retrieved_page c\<rparr>"

text \<open>The insert into \<^verbatim>\<open>chat_messages\<close>; its error is at most logged.\<close>

definition insertMessage :: "chat_env \<Rightarrow> chat_message \<Rightarrow> chat_message list \<Rightarrow> chat_message list" where
  "insertMessage env m messages =
     (if messageInsertError env = None then messages @ [m] else messages)"

text \<open>The message to the user when every provider failed.\<close>

definition apology :: "string \<Rightarrow> string" where
  "apology message =
     ''I'm experiencing technical difficulties right now. '' @
     (if str_includes message ''overloaded'' \<or> str_includes message ''503''
      then ''The AI service is currently overloaded. Please try again in a few moments.''
      else if str_includes message ''rate'' \<or> str_includes message ''429''
      then ''Too many requests are being processed. Please wait a moment and try again.''
      else ''Please try again later or contact support if the issue persists.'')"

text \<open>
  The outer \<^verbatim>\<open>catch\<close> block. Reading a property of \<^verbatim>\<open>undefined\<close> throws inside the handler,
  and the server answers for the function.
\<close>

definition errorResponse :: "thrown \<Rightarrow> chat_response" where
  "errorResponse err =
     (case err of
        Error message \<Rightarrow>
          Response500 (if message = [] then ''An unexpected error occurred'' else message)
      | ThrownUndefined \<Rightarrow> Response500 ''Internal Server Error'')"

text \<open>
  The handler that the chat function passes to \<^verbatim>\<open>serve\<close>, for a request other than the
  preflight \<^verbatim>\<open>OPTIONS\<close>, on the messages recorded so far: the response and the messages
  recorded afterwards.
\<close>

definition serve :: "chat_env \<Rightarrow> chat_message list \<Rightarrow> chat_response \<times> chat_message list" where
  "serve env messages =
     (case chatBody env of
        Inl message \<Rightarrow> (errorResponse (Error message), messages)
      | Inr (sessionId, message, userId) \<Rightarrow>
          if \<not> truthy (geminiApiKey (providers env))
          then (errorResponse (Error ''Google Gemini API key not configured''), messages)
          else
            (case outcome (queryEmbedding (queryFetch env) (queryRandom env)) of
               Inl err \<Rightarrow> (errorResponse err, messages)
             | Inr embedded \<Rightarrow>
                 (let chunks = retrievedChunks env in
                  if length chunks = 0
                  then (Response200 noDocumentsResponse [] None None, messages)
                  else
                    (let context = joinWith [10, 10] (map retrieved_content chunks);
                         sources = map toSource chunks
                     in if length context = 0
                        then (Response200 generalResponse [] None None,
                              insertMessage env
                                \<lparr>session_id = sessionId, role = ''assistant'',
                                 message_content = generalResponse, message_sources = []\<rparr>
                                messages)
                        else
                          (case generated (generateAIResponse (providers env)) of
                             Inl err \<Rightarrow>
                               (case err of
                                  ThrownUndefined \<Rightarrow>
                                    (errorResponse
                                       (Error ''Cannot read properties of undefined (reading 'message')''),
                                     messages)
                                | Error failure \<Rightarrow>
                                    (Response200 (apology failure) [] None (Some ''AI_SERVICE_UNAVAILABLE''),
                                     insertMessage env
                                       \<lparr>session_id = sessionId, role = ''assistant'',
                                        message_content = apology failure, message_sources = []\<rparr>
                                       messages))
                           | Inr (aiResponse, provider) \<Rightarrow>
                               (Response200 aiResponse sources (Some provider) None,
                                insertMessage env
                                  \<lparr>session_id = sessionId, role = ''assistant'',
                                   message_content = aiResponse, message_sources = sources\<rparr>
                                  messages))))))"

section \<open>Sample inputs\<close>

text \<open>A sample database: three documents of two users and six chunks.\<close>

definition sampleDocs :: "document list" where
  "sampleDocs =
     [\<lparr>doc_id = ''d1'', doc_user_id = ''alice'', doc_name = ''Contracts'', file_path = ''alice/1.pdf'',
       doc_status = ''completed'', total_pages = Some 3, total_chunks = Some 4, error_message = None\<rparr>,
      \<lparr>doc_id = ''d2'', doc_user_id = ''bob'', doc_name = ''Recipes'', file_path = ''bob/2.pdf'',
       doc_status = ''completed'', total_pages = Some 1, total_chunks = Some 1, error_message = None\<rparr>,
      \<lparr>doc_id = ''d3'', doc_user_id = ''alice'', doc_name = ''Draft'', file_path = ''alice/3.pdf'',
       doc_status = ''processing'', total_pages = None, total_chunks = Some 0, error_message = None\<rparr>]"

definition sampleChunk :: "uuid \<Rightarrow> uuid \<Rightarrow> uuid \<Rightarrow> real option \<Rightarrow> real document_chunk" where
  "sampleChunk c d u e =
     \<lparr>chunk_id = c, document_id = d, chunk_user_id = u, chunk_content = js ''Some text.'',
      page_number = 1, chunk_index = 0, chunk_embedding = e\<rparr>"

definition sampleChunks :: "real document_chunk list" where
  "sampleChunks =
     [sampleChunk ''c1'' ''d1'' ''alice'' (Some (7 / 10)),
      sampleChunk ''c2'' ''d1'' ''alice'' (Some (2 / 10)),
      sampleChunk ''c3'' ''d2'' ''bob'' (Some 1),
      sampleChunk ''c4'' ''d3'' ''alice'' (Some 1),
      sampleChunk ''c5'' ''d1'' ''alice'' None,
      sampleChunk ''c6'' ''d1'' ''alice'' (Some (9 / 10))]"





text \<open>
  A chat request of a user without documents, and one whose only retrieved chunk has an
  empty content. The call of \<^verbatim>\<open>match_documents\<close> fails, as it does on the function of the
  migration, and the chunks are those of the fallback query.
\<close>

definition strangerEnv :: chat_env where
  "strangerEnv =
     \<lparr>chatBody = Inr (''s1'', ''What is the notice period?'', ''carol''),
      providers = overloadedEnv,
      queryFetch = (\<lambda>k. Fetched (HttpResponse 200 [] (Inr (Some [1 / 10, 3 / 10])))),
      queryRandom = (\<lambda>k. 0),
      searchResult = Inl ''column reference user_id is ambiguous'',
      fallbackResult = Inr (Some []),
      messageInsertError = None\<rparr>"

definition blankChunkEnv :: chat_env where
  "blankChunkEnv =
     strangerEnv\<lparr>fallbackResult :=
       Inr (Some [\<lparr>retrieved_content = [], retrieved_page = 1, retrieved_title = None\<rparr>])\<rparr>"

text \<open>
  A generation endpoint that rejects every request with status 400, and one that
  answers 503 twice and then with a text.
\<close>

definition rejecting :: "nat \<Rightarrow> string fetched" where
  "rejecting k = Fetched (HttpResponse 400 ''max 5000 tokens'' (Inr None))"

definition geminiBusyTwice :: "nat \<Rightarrow> string fetched" where
  "geminiBusyTwice k =
     (if k < 2 then Fetched (HttpResponse 503 ''busy'' (Inr None))
      else Fetched (HttpResponse 200 [] (Inr (Some ''An answer.''))))"

text \<open>An embedding endpoint that answers 503 twice and then with an embedding.\<close>

definition busyTwice :: "nat \<Rightarrow> real list fetched" where
  "busyTwice k =
     (if k < 2 then Fetched (HttpResponse 503 ''busy'' (Inl ''Unexpected token''))
      else Fetched (HttpResponse 200 [] (Inr (Some [1 / 10, 3 / 10]))))"

text \<open>Two sample texts, chunked below with a maximum size of 60 and an overlap of 5.\<close>

definition contractsText :: jsstring where
  "contractsText = js (''The archive keeps every signed contract for seven yrs. '' @
     ''Auditors may ask for any of them at short notice too. Be ready. '' @
     ''Scanned copies are stored offsite in a fireproof vault.'')"

definition auditText :: jsstring where
  "auditText = js (''The archive keeps every signed contract for seven yrs. '' @
     ''Auditors may ask for any of them at short notice too.'')"

section \<open>Properties of the chunker\<close>

text \<open>
  After the first replacement no line feed is left, so the second replacement of the
  normalization changes nothing.
\<close>

lemma collapseSpaces_no_newline: "10 \<notin> set (collapseSpaces s)"
proof (induction s rule: collapseSpaces.induct)
  case 1
  then show ?case by simp
next
  case (2 c cs)
  then show ?case by (cases "isSpace c") (auto simp: isSpace_def)
qed

lemma removeEmptyLines_id: "10 \<notin> set s \<Longrightarrow> removeEmptyLines s = s"
  by (induction s) auto

lemma cleanText_eq: "cleanText s = trim (collapseSpaces s)"
  by (simp add: cleanText_def removeEmptyLines_id collapseSpaces_no_newline)

lemma chunkText_contractsText:
  "chunkText contractsText 60 5 =
   [\<lparr>content = js ''The archive keeps every signed contract for seven yrs.'',
      startIndex = 0, endIndex = 54\<rparr>,
    \<lparr>content = js ''yrs. Auditors may ask for any of them at short notice too.'',
      startIndex = 49, endIndex = 108\<rparr>,
    \<lparr>content = js ''eady. Scanned copies are stored offsite in a fireproof vault.'',
      startIndex = 113, endIndex = 174\<rparr>]"
  by (simp add: chunkText_def loopChunks_def contractsText_def cleanText_def sentencesOf_def
      js_def trim_def isSpace_def isTerminal_def slice_def Let_def)

lemma loopChunks_auditText:
  "loopChunks auditText 60 5 =
   [\<lparr>content = js ''The archive keeps every signed contract for seven yrs.'',
      startIndex = 0, endIndex = 54\<rparr>,
    \<lparr>content = js ''yrs. Auditors may ask for any of them at short notice too.'',
      startIndex = 49, endIndex = 108\<rparr>]"
  by (simp add: loopChunks_def auditText_def cleanText_def sentencesOf_def
      js_def trim_def isSpace_def isTerminal_def slice_def Let_def)

lemma chunkText_auditText: "chunkText auditText 60 5 = loopChunks auditText 60 5"
  by (simp add: chunkText_def loopChunks_auditText)
    (simp add: auditText_def cleanText_def js_def trim_def isSpace_def)

text \<open>
  C4. Every chunk of \<^verbatim>\<open>chunkText(text, maxChunkSize, overlap)\<close> has a content of at
  least 50 code units (the filter keeps the chunks longer than 50), except that a
  normalized text that fits into \<^verbatim>\<open>maxChunkSize\<close> is returned whole as the only chunk,
  with the offsets of the full text, whatever its length.
\<close>

theorem chunkText_min_length:
  "(text \<noteq> [] \<and> int (length (cleanText text)) \<le> maxChunkSize \<longrightarrow>
      chunkText text maxChunkSize overlap =
        [\<lparr>content = cleanText text, startIndex = 0, endIndex = int (length (cleanText text))\<rparr>])
   \<and> (\<not> int (length (cleanText text)) \<le> maxChunkSize \<longrightarrow>
      (\<forall>c \<in> set (chunkText text maxChunkSize overlap). 50 \<le> length (content c)))"
  by (auto simp: chunkText_def)

theorem chunkText_min_length_witness:
  "js ''Hi.'' \<noteq> [] \<and> int (length (cleanText (js ''Hi.''))) \<le> 1000
   \<and> chunkText (js ''Hi.'') 1000 200 = [\<lparr>content = js ''Hi.'', startIndex = 0, endIndex = 3\<rparr>]
   \<and> length (js ''Hi.'') < 50
   \<and> \<not> int (length (cleanText auditText)) \<le> 60
   \<and> length (chunkText auditText 60 5) = 2
   \<and> 50 \<le> length (content (chunkText auditText 60 5 ! 0))
   \<and> 50 \<le> length (content (chunkText auditText 60 5 ! 1))"
proof -
  have c1: "cleanText (js ''Hi.'') = js ''Hi.''"
    by (simp add: cleanText_def js_def trim_def isSpace_def)
  have c2: "\<not> int (length (cleanText auditText)) \<le> 60"
    by (simp add: auditText_def cleanText_def js_def trim_def isSpace_def)
  have l: "length (js ''Hi.'') = 3" "js ''Hi.'' \<noteq> []"
    by (simp_all add: js_def)
  have n: "length (chunkText auditText 60 5) = 2"
    by (simp add: chunkText_auditText loopChunks_auditText)
  then have "chunkText auditText 60 5 ! 0 \<in> set (chunkText auditText 60 5)"
    "chunkText auditText 60 5 ! 1 \<in> set (chunkText auditText 60 5)"
    by simp_all
  with chunkText_min_length [of auditText 60 5] c2
  have "50 \<le> length (content (chunkText auditText 60 5 ! 0))"
    "50 \<le> length (content (chunkText auditText 60 5 ! 1))"
    by blast+
  with chunkText_min_length [of "js ''Hi.''" 1000 200] c1 c2 l n show ?thesis
    by simp
qed

subsection \<open>Overlap between consecutive chunks\<close>

lemma endsVisible_trim: "endsVisible (trim s)"
proof (cases "trim s = []")
  case True
  then show ?thesis by (simp add: endsVisible_def)
next
  case False
  then have ne: "dropWhile isSpace (rev (dropWhile isSpace s)) \<noteq> []"
    by (simp add: trim_def)
  then have "\<not> isSpace (hd (dropWhile isSpace (rev (dropWhile isSpace s))))"
    by (rule hd_dropWhile)
  with ne show ?thesis
    by (simp add: endsVisible_def trim_def last_rev)
qed

lemma trim_endsVisible: "endsVisible s \<Longrightarrow> trim s = ltrim s"
proof -
  assume v: "endsVisible s"
  have "endsVisible (dropWhile isSpace s)"
  proof (cases "dropWhile isSpace s = []")
    case True
    then show ?thesis by (simp add: endsVisible_def)
  next
    case False
    then have "last (dropWhile isSpace s) = last s"
      by (metis append_Nil2 last_appendR takeWhile_dropWhile_id)
    moreover from False have "s \<noteq> []" by auto
    ultimately show ?thesis using v by (simp add: endsVisible_def)
  qed
  then have "dropWhile isSpace (rev (dropWhile isSpace s)) = rev (dropWhile isSpace s)"
    by (cases "dropWhile isSpace s = []") (auto simp: endsVisible_def hd_rev intro: dropWhile_eq_self_iff [THEN iffD2])
  then show ?thesis
    by (simp add: trim_def ltrim_def)
qed

lemma ltrim_append_visible:
  "s \<noteq> [] \<Longrightarrow> endsVisible s \<Longrightarrow> ltrim (s @ t) = ltrim s @ t"
proof -
  assume "s \<noteq> []" "endsVisible s"
  then have "last s \<in> set s" "\<not> isSpace (last s)"
    by (auto simp: endsVisible_def)
  then show ?thesis
    unfolding ltrim_def by (meson dropWhile_append1)
qed

lemma endsVisible_suffix:
  "endsVisible s \<Longrightarrow> endsVisible (drop n s)"
  by (cases "drop n s = []") (auto simp: endsVisible_def)

lemma ltrim_spaces_append:
  "\<forall>c \<in> set w. isSpace c \<Longrightarrow> ltrim (w @ t) = ltrim t"
  by (simp add: ltrim_def dropWhile_append2)

lemma ltrim_lastChars:
  assumes "endsVisible s"
  shows "ltrim (lastChars n (ltrim s)) = ltrim (lastChars n s)"
proof -
  define w where "w = takeWhile isSpace s"
  define b where "b = dropWhile isSpace s"
  have s: "s = w @ b" by (simp add: w_def b_def)
  have w: "\<forall>c \<in> set w. isSpace c"
    by (auto simp: w_def dest: set_takeWhileD)
  show ?thesis
  proof (cases "n \<le> length b")
    case True
    then have "lastChars n s = lastChars n b"
      by (simp add: lastChars_def s)
    then show ?thesis by (simp add: ltrim_def b_def)
  next
    case False
    then have 1: "lastChars n b = b" by (simp add: lastChars_def)
    from False have "lastChars n s = drop (length w + length b - n) w @ b"
      by (simp add: lastChars_def s)
    moreover have "\<forall>c \<in> set (drop (length w + length b - n) w). isSpace c"
      using w by (meson in_set_dropD)
    ultimately have "ltrim (lastChars n s) = ltrim b"
      by (simp add: ltrim_spaces_append)
    with 1 show ?thesis by (simp add: ltrim_def b_def)
  qed
qed

lemma slice_neg: "0 < n \<Longrightarrow> slice s (- int n) = lastChars n s"
  by (auto simp: slice_def lastChars_def Let_def max_def nat_diff_distrib' intro: arg_cong [where f = "\<lambda>k. drop k s"])

lemma seed_prefix:
  assumes "cur \<noteq> []" "endsVisible cur" "0 \<le> overlap"
  shows "prefix (ltrim (lastChars (nat overlap) (trim cur))) (ltrim (slice cur (- overlap) @ rest))"
proof (cases "overlap = 0")
  case True
  then show ?thesis by (simp add: lastChars_def ltrim_def)
next
  case False
  with assms(3) obtain n where n: "overlap = int n" "0 < n"
    by (metis nat_0_le of_nat_0_less_iff order_le_less)
  have sl: "slice cur (- overlap) = lastChars n cur"
    using n by (simp add: slice_neg)
  have ne: "lastChars n cur \<noteq> []"
  proof -
    from assms(1) have "0 < length cur" by simp
    with n(2) have "length cur - n < length cur" by arith
    then show ?thesis by (simp add: lastChars_def)
  qed
  have vis: "endsVisible (lastChars n cur)"
    unfolding lastChars_def using assms(2) by (rule endsVisible_suffix)
  have "ltrim (lastChars n (trim cur)) = ltrim (lastChars n cur)"
    using assms(2) by (simp add: trim_endsVisible ltrim_lastChars)
  moreover have "ltrim (lastChars n cur @ rest) = ltrim (lastChars n cur) @ rest"
    using ne vis by (rule ltrim_append_visible)
  ultimately show ?thesis
    using n sl by simp
qed

lemma chunkLoop_overlap:
  assumes "0 \<le> overlap" "\<forall>s \<in> set ss. trim s \<noteq> []" "endsVisible cur"
  shows "successively (overlapsInto overlap) (chunkLoop m overlap ss cur st)
         \<and> (chunkLoop m overlap ss cur st \<noteq> [] \<longrightarrow>
              prefix (ltrim cur) (content (hd (chunkLoop m overlap ss cur st))))"
  using assms(2,3)
proof (induction ss arbitrary: cur st)
  case Nil
  then show ?case by (simp add: trim_endsVisible)
next
  case (Cons s ss)
  define sentence where "sentence = trim s"
  define potential where "potential = cur @ (if cur \<noteq> [] then [32] else []) @ sentence"
  define seeded where "seeded = slice cur (- overlap) @ [32] @ sentence"
  have sent: "sentence \<noteq> []" "endsVisible sentence"
    using Cons.prems(1) by (simp_all add: sentence_def endsVisible_trim)
  have rest: "\<forall>s \<in> set ss. trim s \<noteq> []"
    using Cons.prems(1) by simp
  show ?case
  proof (cases "int (length potential) > m \<and> length cur > 0")
    case True
    define st' where "st' = max 0 (st + int (length cur) - overlap)"
    define later where "later = chunkLoop m overlap ss seeded st'"
    have unfold: "chunkLoop m overlap (s # ss) cur st =
        \<lparr>content = trim cur, startIndex = st, endIndex = st + int (length cur)\<rparr> #  later"
      unfolding later_def st'_def seeded_def sentence_def
      using True [unfolded potential_def sentence_def]
      by (simp only: chunkLoop.simps Let_def if_True simp_thms)
    have "endsVisible seeded"
      unfolding seeded_def using sent by (simp add: endsVisible_def)
    from Cons.IH [OF rest this, of st']
    have ih: "successively (overlapsInto overlap)  later"
      "later \<noteq> [] \<longrightarrow> prefix (ltrim seeded) (content (hd later))"
      by (simp_all add: later_def)
    from True have "cur \<noteq> []" by auto
    then have seed: "prefix (ltrim (lastChars (nat overlap) (trim cur))) (ltrim seeded)"
      unfolding seeded_def using Cons.prems(2) assms(1) by (rule seed_prefix)
    have link: "overlapsInto overlap
        \<lparr>content = trim cur, startIndex = st, endIndex = st + int (length cur)\<rparr> (hd later)"
      if "later \<noteq> []"
    proof -
      from that ih(2) have "prefix (ltrim seeded) (content (hd later))" by simp
      with seed have "prefix (ltrim (lastChars (nat overlap) (trim cur))) (content (hd later))"
        by (rule prefix_order.trans)
      then show ?thesis by (simp add: overlapsInto_def)
    qed
    have "successively (overlapsInto overlap)
        (\<lparr>content = trim cur, startIndex = st, endIndex = st + int (length cur)\<rparr> # later)"
      using ih(1) link by (cases "later = []") (simp_all add: successively_Cons)
    moreover have "prefix (ltrim cur) (trim cur)"
      using Cons.prems(2) by (simp add: trim_endsVisible)
    ultimately show ?thesis
      unfolding unfold by simp
  next
    case False
    have unfold: "chunkLoop m overlap (s # ss) cur st = chunkLoop m overlap ss potential st"
      unfolding potential_def sentence_def
      using False [unfolded potential_def sentence_def]
      by (simp only: chunkLoop.simps Let_def if_False simp_thms)
    have "endsVisible potential"
      unfolding potential_def using sent by (simp add: endsVisible_def)
    from Cons.IH [OF rest this, of st]
    have ih: "successively (overlapsInto overlap) (chunkLoop m overlap ss potential st)"
      "chunkLoop m overlap ss potential st \<noteq> [] \<longrightarrow>
         prefix (ltrim potential) (content (hd (chunkLoop m overlap ss potential st)))"
      by simp_all
    have "prefix (ltrim cur) (ltrim potential)"
    proof (cases "cur = []")
      case True
      then show ?thesis by (simp add: ltrim_def)
    next
      case False
      then show ?thesis
        unfolding potential_def using Cons.prems(2) by (simp add: ltrim_append_visible)
    qed
    then have "prefix (ltrim cur) (content (hd (chunkLoop m overlap ss potential st)))"
      if "chunkLoop m overlap ss potential st \<noteq> []"
      using ih(2) that prefix_order.trans by blast
    with ih(1) show ?thesis
      unfolding unfold by simp
  qed
qed

lemma sentencesOf_visible: "\<forall>s \<in> set (sentencesOf clean). trim s \<noteq> []"
  by (simp add: sentencesOf_def)

text \<open>
  C5 as stated fails on the code. With a maximum size of 60 and an overlap of 5 the
  first sample text gives three chunks. The first was closed by a split and ends in
  \<^verbatim>\<open>" yrs."\<close>; the slice that seeds the second chunk starts with that space, and the
  content of the second chunk is trimmed, so it starts with \<^verbatim>\<open>"yrs. "\<close>. The chunk
  seeded from the second one has 14 code units and is dropped by the filter, so the third
  chunk of the output does not start with the tail of the second either, even without
  its leading space.
\<close>

theorem chunk_overlap_counterexample:
  "length (chunkText contractsText 60 5) = 3
   \<and> \<not> prefix (lastChars 5 (content (chunkText contractsText 60 5 ! 0)))
               (content (chunkText contractsText 60 5 ! 1))
   \<and> \<not> prefix (ltrim (lastChars 5 (content (chunkText contractsText 60 5 ! 1))))
               (content (chunkText contractsText 60 5 ! 2))"
  unfolding chunkText_contractsText
  by (simp add: js_def lastChars_def ltrim_def isSpace_def)

text \<open>
  C5, as amended. Let \<open>overlap\<close> be non-negative. For every pair of consecutive chunks
  \<open>i\<close>, \<open>i + 1\<close> built by the accumulation loop (every chunk but the last is closed by a
  size-triggered split), the last \<open>overlap\<close> code units of the content of chunk \<open>i\<close>,
  with leading white space removed, are a prefix of the content of chunk \<open>i + 1\<close>. The
  output of \<^verbatim>\<open>chunkText\<close> is this list without the chunks of 50 code units or fewer, so
  the same holds between consecutive chunks of the output whenever the filter drops
  nothing.
\<close>

theorem chunk_overlap_trimmed:
  assumes "0 \<le> overlap"
  shows "(\<forall>i. Suc i < length (loopChunks text maxChunkSize overlap) \<longrightarrow>
            prefix (ltrim (lastChars (nat overlap) (content (loopChunks text maxChunkSize overlap ! i))))
                   (content (loopChunks text maxChunkSize overlap ! Suc i)))
         \<and> ((\<forall>c \<in> set (loopChunks text maxChunkSize overlap). 50 < length (content c)) \<longrightarrow>
            (\<forall>i. Suc i < length (chunkText text maxChunkSize overlap) \<longrightarrow>
               prefix (ltrim (lastChars (nat overlap) (content (chunkText text maxChunkSize overlap ! i))))
                      (content (chunkText text maxChunkSize overlap ! Suc i))))"
proof -
  have "endsVisible []" by (simp add: endsVisible_def)
  from chunkLoop_overlap [OF assms sentencesOf_visible this]
  have "successively (overlapsInto overlap) (loopChunks text maxChunkSize overlap)"
    unfolding loopChunks_def by blast
  then have 1: "\<forall>i. Suc i < length (loopChunks text maxChunkSize overlap) \<longrightarrow>
            prefix (ltrim (lastChars (nat overlap) (content (loopChunks text maxChunkSize overlap ! i))))
                   (content (loopChunks text maxChunkSize overlap ! Suc i))"
    by (simp add: successively_conv_nth overlapsInto_def)
  have 2: "\<forall>i. Suc i < length (chunkText text maxChunkSize overlap) \<longrightarrow>
               prefix (ltrim (lastChars (nat overlap) (content (chunkText text maxChunkSize overlap ! i))))
                      (content (chunkText text maxChunkSize overlap ! Suc i))"
    if all: "\<forall>c \<in> set (loopChunks text maxChunkSize overlap). 50 < length (content c)"
  proof (cases "text = [] \<or> int (length (cleanText text)) \<le> maxChunkSize")
    case True
    then show ?thesis by (auto simp: chunkText_def)
  next
    case False
    from all have "filter (\<lambda>c. length (content c) > 50) (loopChunks text maxChunkSize overlap)
        = loopChunks text maxChunkSize overlap"
      by (simp add: filter_id_conv)
    with False have "chunkText text maxChunkSize overlap = loopChunks text maxChunkSize overlap"
      by (simp add: chunkText_def)
    with 1 show ?thesis by simp
  qed
  show ?thesis
  proof (intro conjI impI)
    show "\<forall>i. Suc i < length (loopChunks text maxChunkSize overlap) \<longrightarrow>
            prefix (ltrim (lastChars (nat overlap) (content (loopChunks text maxChunkSize overlap ! i))))
                   (content (loopChunks text maxChunkSize overlap ! Suc i))"
      by (rule 1)
  next
    assume "\<forall>c \<in> set (loopChunks text maxChunkSize overlap). 50 < length (content c)"
    then show "\<forall>i. Suc i < length (chunkText text maxChunkSize overlap) \<longrightarrow>
               prefix (ltrim (lastChars (nat overlap) (content (chunkText text maxChunkSize overlap ! i))))
                      (content (chunkText text maxChunkSize overlap ! Suc i))"
      by (rule 2)
  qed
qed

theorem chunk_overlap_trimmed_witness:
  "(0::int) \<le> 5
   \<and> length (loopChunks auditText 60 5) = 2
   \<and> 50 < length (content (loopChunks auditText 60 5 ! 0))
   \<and> 50 < length (content (loopChunks auditText 60 5 ! 1))
   \<and> length (chunkText auditText 60 5) = 2
   \<and> prefix (ltrim (lastChars (nat 5) (content (loopChunks auditText 60 5 ! 0))))
             (content (loopChunks auditText 60 5 ! Suc 0))
   \<and> prefix (ltrim (lastChars (nat 5) (content (chunkText auditText 60 5 ! 0))))
             (content (chunkText auditText 60 5 ! Suc 0))"
proof -
  have big: "\<forall>c \<in> set (loopChunks auditText 60 5). 50 < length (content c)"
    by (simp add: loopChunks_auditText js_def)
  have len: "length (loopChunks auditText 60 5) = 2"
    by (simp add: loopChunks_auditText)
  have sizes: "50 < length (content (loopChunks auditText 60 5 ! 0))"
    "50 < length (content (loopChunks auditText 60 5 ! 1))"
    by (simp_all add: loopChunks_auditText js_def)
  from chunk_overlap_trimmed [of 5 auditText 60] big len sizes show ?thesis
    by (simp add: chunkText_auditText)
qed

section \<open>Properties of the retry policy\<close>

lemma str_includes_mid: "str_includes (a @ sub @ b) sub"
proof (induction a)
  case Nil
  have "prefix sub (sub @ b)" by simp
  then show ?case by (cases "sub @ b") auto
next
  case (Cons x a)
  then show ?case by simp
qed

lemma show_nat_503: "show_nat 503 = ''503''"
  by (simp add: show_nat.simps)

lemma embedding_503_retryable:
  "status r = 503 \<Longrightarrow> \<exists>message. embeddingAttempt (Fetched r) = Inl message \<and> isRetryable message"
  using str_includes_mid [of "''Embedding API failed: ''" "''503''" "'' - '' @ bodyText r"]
  by (simp add: ok_def show_nat_503 isRetryable_def)

lemma retry_step:
  assumes "int attempt < maxRetries" "operation attempt = Inl message" "isRetryable message"
  shows "retryLoop operation maxRetries baseDelay random attempt lastError slept =
         retryLoop operation maxRetries baseDelay random (Suc attempt) (Error message)
           (slept @ [backoffDelay baseDelay attempt (random attempt)])"
  using assms by (simp add: retryLoop.simps [of _ _ _ _ attempt])

lemma retry_return:
  assumes "int attempt \<le> maxRetries" "operation attempt = Inr v"
  shows "retryLoop operation maxRetries baseDelay random attempt lastError slept =
         \<lparr>outcome = Inr v, attempts = Suc attempt, delays = slept\<rparr>"
  using assms by (simp add: retryLoop.simps [of _ _ _ _ attempt])

lemma retry_last:
  assumes "int attempt = maxRetries" "operation attempt = Inl message"
  shows "retryLoop operation maxRetries baseDelay random attempt lastError slept =
         \<lparr>outcome = Inl (Error message), attempts = Suc attempt, delays = slept\<rparr>"
  using assms by (simp add: retryLoop.simps [of _ _ _ _ attempt])

lemma retry_two_failures:
  assumes "operation 0 = Inl e0" "isRetryable e0" "operation 1 = Inl e1" "isRetryable e1"
    "operation 2 = Inr v"
  shows "retryWithBackoff operation 3 baseDelay random =
     \<lparr>outcome = Inr v, attempts = 3,
      delays = [backoffDelay baseDelay 0 (random 0), backoffDelay baseDelay 1 (random 1)]\<rparr>"
proof -
  have "retryWithBackoff operation 3 baseDelay random =
      retryLoop operation 3 baseDelay random (Suc 0) (Error e0) [backoffDelay baseDelay 0 (random 0)]"
    unfolding retryWithBackoff_def using retry_step [of 0 3 operation e0] assms(1,2) by simp
  also have "\<dots> = retryLoop operation 3 baseDelay random (Suc (Suc 0)) (Error e1)
      [backoffDelay baseDelay 0 (random 0), backoffDelay baseDelay 1 (random 1)]"
    using retry_step [of "Suc 0" 3 operation e1] assms(3,4) by simp
  also have "\<dots> = \<lparr>outcome = Inr v, attempts = 3,
      delays = [backoffDelay baseDelay 0 (random 0), backoffDelay baseDelay 1 (random 1)]\<rparr>"
    using retry_return [of "Suc (Suc 0)" 3 operation v] assms(5) by (simp add: numeral_2_eq_2 numeral_3_eq_3)
  finally show ?thesis .
qed

lemma retryLoop_exhausted:
  assumes "int attempt \<le> maxRetries"
    "\<forall>k. attempt \<le> k \<and> int k < maxRetries \<longrightarrow> (\<exists>e. operation k = Inl e \<and> isRetryable e)"
    "operation (nat maxRetries) = Inl final"
  shows "outcome (retryLoop operation maxRetries baseDelay random attempt lastError slept) = Inl (Error final)
       \<and> attempts (retryLoop operation maxRetries baseDelay random attempt lastError slept) = Suc (nat maxRetries)"
  using assms
proof (induction "nat (maxRetries - int attempt)" arbitrary: attempt lastError slept)
  case 0
  then have eq: "int attempt = maxRetries" by simp
  then have "nat maxRetries = attempt" by auto
  with 0 eq show ?case
    using retry_last [of attempt maxRetries operation final] by simp
next
  case (Suc n)
  then have lt: "int attempt < maxRetries" by simp
  with Suc.prems(2) obtain e where e: "operation attempt = Inl e" "isRetryable e"
    by blast
  have n: "n = nat (maxRetries - int (Suc attempt))"
    using Suc.hyps(2) by simp
  have le: "int (Suc attempt) \<le> maxRetries"
    using lt by simp
  have rest: "\<forall>k. Suc attempt \<le> k \<and> int k < maxRetries \<longrightarrow> (\<exists>e. operation k = Inl e \<and> isRetryable e)"
    using Suc.prems(2) by auto
  from Suc.hyps(1) [OF n le rest Suc.prems(3)] show ?case
    using retry_step [of attempt maxRetries operation e, OF lt e] by simp
qed

lemma retryLoop_delays:
  assumes "length slept = attempt"
    "\<forall>k < attempt. slept ! k = backoffDelay baseDelay k (random k)"
  shows "\<forall>k < length (delays (retryLoop operation maxRetries baseDelay random attempt lastError slept)).
           delays (retryLoop operation maxRetries baseDelay random attempt lastError slept) ! k
             = backoffDelay baseDelay k (random k)"
  using assms
proof (induction operation maxRetries baseDelay random attempt lastError slept rule: retryLoop.induct)
  case (1 operation maxRetries baseDelay random attempt lastError slept)
  show ?case
  proof (cases "int attempt \<le> maxRetries")
    case False
    then show ?thesis using "1.prems" by (simp add: retryLoop.simps [of _ _ _ _ attempt])
  next
    case True
    show ?thesis
    proof (cases "operation attempt")
      case (Inr v)
      then show ?thesis using True "1.prems" by (simp add: retryLoop.simps [of _ _ _ _ attempt])
    next
      case (Inl message)
      show ?thesis
      proof (cases "int attempt = maxRetries \<or> \<not> isRetryable message")
        case True
        then show ?thesis using Inl \<open>int attempt \<le> maxRetries\<close> "1.prems"
          by (auto simp: retryLoop.simps [of _ _ _ _ attempt])
      next
        case False
        let ?slept = "slept @ [backoffDelay baseDelay attempt (random attempt)]"
        have step: "retryLoop operation maxRetries baseDelay random attempt lastError slept
            = retryLoop operation maxRetries baseDelay random (Suc attempt) (Error message) ?slept"
          using False Inl True by (simp add: retryLoop.simps [of _ _ _ _ attempt])
        have len: "length ?slept = Suc attempt"
          using "1.prems"(1) by simp
        have inv: "\<forall>k < Suc attempt. ?slept ! k = backoffDelay baseDelay k (random k)"
          using "1.prems" by (auto simp: nth_append less_Suc_eq)
        from False have "int attempt \<noteq> maxRetries" "\<not> \<not> isRetryable message" by auto
        from "1.IH" [OF True Inl this len inv] show ?thesis
          unfolding step .
      qed
    qed
  qed
qed

text \<open>
  C7 as stated fails on the code: the policy classifies an error by substrings of its
  message, not by the status of the response. A request that is rejected with status 400
  and the body \<^verbatim>\<open>max 5000 tokens\<close> gives an error whose message holds \<^verbatim>\<open>500\<close>; it is
  retried until the budget is used up, four requests in all.
\<close>

theorem retry_not_retryable_counterexample:
  "status (HttpResponse 400 ''max 5000 tokens'' (Inr None :: string + string option)) = 400
   \<and> geminiAttempt (rejecting 0) = Inl ''Gemini API failed: 400 - max 5000 tokens''
   \<and> callGeminiAPI rejecting (\<lambda>k. 0) =
       \<lparr>outcome = Inl (Error ''Gemini API failed: 400 - max 5000 tokens''), attempts = 4,
        delays = [1000, 2000, 4000]\<rparr>"
  by (simp add: callGeminiAPI_def retryWithBackoff_def retryLoop.simps rejecting_def ok_def
      isRetryable_def backoffDelay_def show_nat.simps)

text \<open>
  C7, as amended. When the first attempt of an operation wrapped by
  \<^verbatim>\<open>retryWithBackoff\<close> fails with an error that the policy does not classify as retryable,
  that is, whose message holds none of \<^verbatim>\<open>503\<close>, \<^verbatim>\<open>429\<close>, \<^verbatim>\<open>500\<close>, \<^verbatim>\<open>overloaded\<close> and
  \<^verbatim>\<open>network\<close>, that error is thrown to the caller at once: the operation has run once and
  no delay was slept.
\<close>

theorem retry_not_retryable:
  assumes "0 \<le> maxRetries" "operation 0 = Inl message" "\<not> isRetryable message"
  shows "retryWithBackoff operation maxRetries baseDelay random =
           \<lparr>outcome = Inl (Error message), attempts = 1, delays = []\<rparr>"
  using assms by (simp add: retryWithBackoff_def retryLoop.simps [of _ _ _ _ 0])

theorem retry_not_retryable_witness:
  "(0::int) \<le> 3 \<and> \<not> isRetryable ''Gemini API failed: 400 - bad request''
   \<and> retryWithBackoff (\<lambda>k. if k = 0 then Inl ''Gemini API failed: 400 - bad request'' else Inr ''late answer'')
         3 1000 (\<lambda>k. 0)
       = \<lparr>outcome = Inl (Error ''Gemini API failed: 400 - bad request''), attempts = 1, delays = []\<rparr>"
proof -
  have n: "\<not> isRetryable ''Gemini API failed: 400 - bad request''"
    by (simp add: isRetryable_def)
  from retry_not_retryable [of 3 "\<lambda>k. if k = 0 then Inl ''Gemini API failed: 400 - bad request'' else Inr ''late answer''"
      "''Gemini API failed: 400 - bad request''" 1000 "\<lambda>k. 0"] n
  show ?thesis by simp
qed

text \<open>
  C8 as stated fails on the code: a failure with status 503 is not a retryable error for
  every wrapped operation. The operation of \<^verbatim>\<open>callGeminiAPI\<close> turns a 503 into the
  message \<^verbatim>\<open>GEMINI_OVERLOADED:\<close> followed by the body; with the body \<^verbatim>\<open>busy\<close> the message
  holds none of the substrings the policy looks for, so the call throws after one
  request although the third would have succeeded.
\<close>

theorem retry_budget_three_counterexample:
  "geminiAttempt (geminiBusyTwice 0) = Inl ''GEMINI_OVERLOADED: busy''
   \<and> geminiAttempt (geminiBusyTwice 1) = Inl ''GEMINI_OVERLOADED: busy''
   \<and> geminiAttempt (geminiBusyTwice 2) = Inr ''An answer.''
   \<and> callGeminiAPI geminiBusyTwice (\<lambda>k. 0) =
       \<lparr>outcome = Inl (Error ''GEMINI_OVERLOADED: busy''), attempts = 1, delays = []\<rparr>"
  by (simp add: callGeminiAPI_def retryWithBackoff_def retryLoop.simps geminiBusyTwice_def ok_def
      isRetryable_def)

text \<open>
  C8, as amended. An operation wrapped with a retry budget of 3 that fails on its first
  two attempts with errors that the policy classifies as retryable (their messages hold
  \<^verbatim>\<open>503\<close>, \<^verbatim>\<open>429\<close>, \<^verbatim>\<open>500\<close>, \<^verbatim>\<open>overloaded\<close> or \<^verbatim>\<open>network\<close>) and succeeds on the third
  returns that success, after three runs. In particular the call that embeds the query in
  the chat function, when the provider answers 503 twice and then with an embedding,
  returns the embedding after three requests: the message of its error carries the
  status, and the call is one \<^verbatim>\<open>retryWithBackoff\<close> over the embedding endpoint, with no
  other provider to turn to. When the budget is exhausted (every attempt before the last
  fails retryably and the last fails), the error of the last attempt is thrown with its
  message unchanged.
\<close>

theorem retry_budget_three:
  "(operation 0 = Inl e0 \<and> isRetryable e0 \<and> operation 1 = Inl e1 \<and> isRetryable e1
      \<and> operation 2 = Inr v \<longrightarrow>
      outcome (retryWithBackoff operation 3 baseDelay random) = Inr v
      \<and> attempts (retryWithBackoff operation 3 baseDelay random) = 3)
   \<and> (fetch 0 = Fetched r0 \<and> status r0 = 503 \<and> fetch 1 = Fetched r1 \<and> status r1 = 503
      \<and> fetch 2 = Fetched r2 \<and> ok r2 \<and> bodyJson r2 = Inr (Some embedding) \<longrightarrow>
      outcome (queryEmbedding fetch random) = Inr embedding
      \<and> attempts (queryEmbedding fetch random) = 3)
   \<and> (0 \<le> maxRetries \<and> (\<forall>k < nat maxRetries. \<exists>e. failing k = Inl e \<and> isRetryable e)
      \<and> failing (nat maxRetries) = Inl final \<longrightarrow>
      outcome (retryWithBackoff failing maxRetries baseDelay random) = Inl (Error final)
      \<and> attempts (retryWithBackoff failing maxRetries baseDelay random) = Suc (nat maxRetries))"
proof (intro conjI impI)
  assume a: "operation 0 = Inl e0 \<and> isRetryable e0 \<and> operation 1 = Inl e1 \<and> isRetryable e1
      \<and> operation 2 = Inr v"
  then have "retryWithBackoff operation 3 baseDelay random =
     \<lparr>outcome = Inr v, attempts = 3,
      delays = [backoffDelay baseDelay 0 (random 0), backoffDelay baseDelay 1 (random 1)]\<rparr>"
    using retry_two_failures [of operation e0 e1 v baseDelay random] by simp
  then show "outcome (retryWithBackoff operation 3 baseDelay random) = Inr v"
    "attempts (retryWithBackoff operation 3 baseDelay random) = 3"
    by simp_all
next
  assume a: "fetch 0 = Fetched r0 \<and> status r0 = 503 \<and> fetch 1 = Fetched r1 \<and> status r1 = 503
      \<and> fetch 2 = Fetched r2 \<and> ok r2 \<and> bodyJson r2 = Inr (Some embedding)"
  from a obtain m0 where m0: "embeddingAttempt (fetch 0) = Inl m0" "isRetryable m0"
    using embedding_503_retryable [of r0] by auto
  from a obtain m1 where m1: "embeddingAttempt (fetch 1) = Inl m1" "isRetryable m1"
    using embedding_503_retryable [of r1] by auto
  from a have ok2: "embeddingAttempt (fetch 2) = Inr embedding"
    by simp
  have "queryEmbedding fetch random =
     \<lparr>outcome = Inr embedding, attempts = 3,
      delays = [backoffDelay 1000 0 (random 0), backoffDelay 1000 1 (random 1)]\<rparr>"
    unfolding queryEmbedding_def
    using retry_two_failures [of "\<lambda>k. embeddingAttempt (fetch k)" m0 m1 embedding 1000 random] m0 m1 ok2
    by simp
  then show "outcome (queryEmbedding fetch random) = Inr embedding"
    "attempts (queryEmbedding fetch random) = 3"
    by simp_all
next
  assume a: "0 \<le> maxRetries \<and> (\<forall>k < nat maxRetries. \<exists>e. failing k = Inl e \<and> isRetryable e)
      \<and> failing (nat maxRetries) = Inl final"
  then have "\<forall>k. 0 \<le> k \<and> int k < maxRetries \<longrightarrow> (\<exists>e. failing k = Inl e \<and> isRetryable e)"
    by auto
  with a have "outcome (retryLoop failing maxRetries baseDelay random 0 ThrownUndefined []) = Inl (Error final)
       \<and> attempts (retryLoop failing maxRetries baseDelay random 0 ThrownUndefined []) = Suc (nat maxRetries)"
    by (intro retryLoop_exhausted) simp_all
  then show "outcome (retryWithBackoff failing maxRetries baseDelay random) = Inl (Error final)"
    "attempts (retryWithBackoff failing maxRetries baseDelay random) = Suc (nat maxRetries)"
    by (simp_all add: retryWithBackoff_def)
qed

theorem retry_budget_three_witness:
  "isRetryable ''Embedding API failed: 503 - busy''
   \<and> outcome (retryWithBackoff
        (\<lambda>k. if k < 2 then Inl ''Embedding API failed: 503 - busy'' else Inr ''done'') 3 1000 (\<lambda>k. 0))
       = Inr ''done''
   \<and> status (HttpResponse 503 ''busy'' (Inl ''Unexpected token'' :: string + real list option)) = 503
   \<and> ok (HttpResponse 200 [] (Inr (Some [1 / 10, 3 / 10 :: real])))
   \<and> outcome (queryEmbedding busyTwice (\<lambda>k. 0)) = Inr [1 / 10, 3 / 10]
   \<and> attempts (queryEmbedding busyTwice (\<lambda>k. 0)) = 3
   \<and> (0::int) \<le> 2 \<and> isRetryable ''OpenAI API failed: 500 - down''
   \<and> outcome (retryWithBackoff (\<lambda>k. Inl ''OpenAI API failed: 500 - down'' :: string + string) 2 1000 (\<lambda>k. 0))
       = Inl (Error ''OpenAI API failed: 500 - down'')
   \<and> attempts (retryWithBackoff (\<lambda>k. Inl ''OpenAI API failed: 500 - down'' :: string + string) 2 1000 (\<lambda>k. 0))
       = 3"
proof -
  have r1: "isRetryable ''Embedding API failed: 503 - busy''"
    by (simp add: isRetryable_def)
  have r2: "isRetryable ''OpenAI API failed: 500 - down''"
    by (simp add: isRetryable_def)
  have okr: "ok (HttpResponse 200 [] (Inr (Some [1 / 10, 3 / 10 :: real])))"
    by (simp add: ok_def)
  note t1 = retry_budget_three [of "\<lambda>k. if k < 2 then Inl ''Embedding API failed: 503 - busy'' else Inr ''done''"
      "''Embedding API failed: 503 - busy''" "''Embedding API failed: 503 - busy''" "''done''" 1000 "\<lambda>k. 0"
      busyTwice "HttpResponse 503 ''busy'' (Inl ''Unexpected token'')"
      "HttpResponse 503 ''busy'' (Inl ''Unexpected token'')"
      "HttpResponse 200 [] (Inr (Some [1 / 10, 3 / 10]))" "[1 / 10, 3 / 10]"
      2 "\<lambda>k. Inl ''OpenAI API failed: 500 - down''" "''OpenAI API failed: 500 - down''"]
  have p1: "outcome (retryWithBackoff
        (\<lambda>k. if k < 2 then Inl ''Embedding API failed: 503 - busy'' else Inr ''done'') 3 1000 (\<lambda>k. 0))
       = Inr ''done''"
    using t1 [THEN conjunct1] r1 by simp
  have p2: "outcome (queryEmbedding busyTwice (\<lambda>k. 0)) = Inr [1 / 10, 3 / 10]
      \<and> attempts (queryEmbedding busyTwice (\<lambda>k. 0)) = 3"
    using t1 [THEN conjunct2, THEN conjunct1] okr by (simp add: busyTwice_def)
  have p3: "outcome (retryWithBackoff (\<lambda>k. Inl ''OpenAI API failed: 500 - down'' :: string + string) 2 1000 (\<lambda>k. 0))
       = Inl (Error ''OpenAI API failed: 500 - down'')
     \<and> attempts (retryWithBackoff (\<lambda>k. Inl ''OpenAI API failed: 500 - down'' :: string + string) 2 1000 (\<lambda>k. 0))
       = 3"
    using t1 [THEN conjunct2, THEN conjunct2] r2 by simp
  from p1 p2 p3 r1 r2 okr show ?thesis
    by simp
qed

text \<open>
  C9 as stated fails on the code: the jitter is \<^verbatim>\<open>Math.random() * 1000\<close>, not a fraction
  of the base delay. With a base delay of 100 and a random draw of one half, the delay
  slept before the first retry is 600, so the jitter is 500, five base delay units.
\<close>

theorem backoff_delay_counterexample:
  "delays (retryWithBackoff (\<lambda>k. if k = 0 then Inl ''network error'' else Inr ''done'') 3 100 (\<lambda>k. 1 / 2))
     = [600]
   \<and> \<not> (600 - 100 * 2 ^ 0 \<le> (100::real))"
  by (simp add: retryWithBackoff_def retryLoop.simps isRetryable_def backoffDelay_def)

text \<open>
  C9, as amended. For every base delay and every random source with values from 0 up to
  but not including 1, the delay slept before retry \<open>k\<close> (counted from 0) is
  \<open>baseDelay * 2 ^ k\<close> plus a jitter that is at least 0 and below 1000 milliseconds,
  whatever the base delay. (1000 is one base delay unit for the base delay of 1000 that
  every call site passes. The distribution of the jitter is not modelled.)
\<close>

theorem backoff_delay_jitter:
  assumes "\<forall>k. 0 \<le> random k \<and> random k < 1"
  shows "\<forall>k < length (delays (retryWithBackoff operation maxRetries baseDelay random)).
           \<exists>jitter. delays (retryWithBackoff operation maxRetries baseDelay random) ! k
                       = baseDelay * 2 ^ k + jitter
                     \<and> 0 \<le> jitter \<and> jitter < 1000"
proof (intro allI impI)
  fix k
  assume "k < length (delays (retryWithBackoff operation maxRetries baseDelay random))"
  with retryLoop_delays [of "[]" 0 baseDelay random operation maxRetries ThrownUndefined]
  have "delays (retryWithBackoff operation maxRetries baseDelay random) ! k
      = baseDelay * 2 ^ k + random k * 1000"
    by (simp add: retryWithBackoff_def backoffDelay_def)
  moreover from assms have "0 \<le> random k * 1000" "random k * 1000 < 1000"
    by simp_all
  ultimately show "\<exists>jitter. delays (retryWithBackoff operation maxRetries baseDelay random) ! k
                       = baseDelay * 2 ^ k + jitter \<and> 0 \<le> jitter \<and> jitter < 1000"
    by blast
qed

theorem backoff_delay_jitter_witness:
  "(0::real) \<le> 1 / 2 \<and> (1 / 2 :: real) < 1
   \<and> delays (retryWithBackoff (\<lambda>k. if k < 2 then Inl ''Embedding API failed: 503 - busy'' else Inr ''done'')
        3 1000 (\<lambda>k. 1 / 2)) = [1500, 2500]
   \<and> (\<exists>jitter. delays (retryWithBackoff
          (\<lambda>k. if k < 2 then Inl ''Embedding API failed: 503 - busy'' else Inr ''done'')
          3 1000 (\<lambda>k. 1 / 2)) ! 1 = 1000 * 2 ^ 1 + jitter \<and> 0 \<le> jitter \<and> jitter < 1000)"
proof -
  have d: "delays (retryWithBackoff (\<lambda>k. if k < 2 then Inl ''Embedding API failed: 503 - busy'' else Inr ''done'')
        3 1000 (\<lambda>k. 1 / 2)) = [1500, 2500]"
    by (simp add: retryWithBackoff_def retryLoop.simps isRetryable_def backoffDelay_def)
  from backoff_delay_jitter [of "\<lambda>k. 1 / 2"
      "\<lambda>k. if k < 2 then Inl ''Embedding API failed: 503 - busy'' else Inr ''done''" 3 1000]
  have "\<forall>k < 2. \<exists>jitter. delays (retryWithBackoff
          (\<lambda>k. if k < 2 then Inl ''Embedding API failed: 503 - busy'' else Inr ''done'')
          3 1000 (\<lambda>k. 1 / 2)) ! k = 1000 * 2 ^ k + jitter \<and> 0 \<le> jitter \<and> jitter < 1000"
    by (simp add: d)
  then have "\<exists>jitter. delays (retryWithBackoff
          (\<lambda>k. if k < 2 then Inl ''Embedding API failed: 503 - busy'' else Inr ''done'')
          3 1000 (\<lambda>k. 1 / 2)) ! 1 = 1000 * 2 ^ 1 + jitter \<and> 0 \<le> jitter \<and> jitter < 1000"
    by (metis one_less_numeral_iff semiring_norm(76))
  with d show ?thesis by simp
qed

section \<open>Properties of the generation client\<close>

lemma retryLoop_attempts:
  "int attempt \<le> maxRetries \<Longrightarrow>
   attempt < attempts (retryLoop operation maxRetries baseDelay random attempt lastError slept)"
proof (induction operation maxRetries baseDelay random attempt lastError slept rule: retryLoop.induct)
  case (1 operation maxRetries baseDelay random attempt lastError slept)
  show ?case
  proof (cases "operation attempt")
    case (Inr v)
    then show ?thesis using "1.prems" by (simp add: retryLoop.simps [of _ _ _ _ attempt])
  next
    case (Inl message)
    show ?thesis
    proof (cases "int attempt = maxRetries \<or> \<not> isRetryable message")
      case True
      then show ?thesis using Inl "1.prems"
        by (auto simp: retryLoop.simps [of _ _ _ _ attempt])
    next
      case False
      then have neq: "int attempt \<noteq> maxRetries" and r: "\<not> \<not> isRetryable message" by auto
      from neq "1.prems" have lt: "int attempt < maxRetries" "int (Suc attempt) \<le> maxRetries" by simp_all
      from "1.IH" [OF "1.prems" Inl neq r lt(2)]
      show ?thesis
        using retry_step [of attempt maxRetries operation message, OF lt(1) Inl] r by simp
    qed
  qed
qed

lemma callGeminiAPI_attempts: "1 \<le> attempts (callGeminiAPI fetch random)"
  using retryLoop_attempts [of 0 3] by (simp add: callGeminiAPI_def retryWithBackoff_def Suc_le_eq)

lemma overloaded_gemini:
  "callGeminiAPI (\<lambda>k. Fetched (HttpResponse 503 ''overloaded'' (Inr None))) (\<lambda>k. 0) =
     \<lparr>outcome = Inl (Error ''GEMINI_OVERLOADED: overloaded''), attempts = 4, delays = [1000, 2000, 4000]\<rparr>"
  by (simp add: callGeminiAPI_def retryWithBackoff_def retryLoop.simps ok_def isRetryable_def backoffDelay_def)

lemma down_openai:
  "callOpenAIFallback (\<lambda>k. Fetched (HttpResponse 500 ''down'' (Inr None))) (\<lambda>k. 0) =
     \<lparr>outcome = Inl (Error ''OpenAI API failed: 500 - down''), attempts = 3, delays = [1000, 2000]\<rparr>"
  by (simp add: callOpenAIFallback_def retryWithBackoff_def retryLoop.simps ok_def isRetryable_def backoffDelay_def show_nat.simps)

lemma answering_openai:
  "callOpenAIFallback (\<lambda>k. Fetched (HttpResponse 200 [] (Inr (Some ''An answer.'')))) (\<lambda>k. 0) =
     \<lparr>outcome = Inr ''An answer.'', attempts = 1, delays = []\<rparr>"
  by (simp add: callOpenAIFallback_def retryWithBackoff_def retryLoop.simps ok_def)

text \<open>
  C6 as stated fails on the code: a primary failure classified as overload, with a
  secondary provider configured, does not always end in a response of the secondary.
  When Gemini answers 503 to all four requests and OpenAI answers 500 to all three of
  its own, \<^verbatim>\<open>generateAIResponse\<close> throws the error of Gemini.
\<close>

theorem generate_failover_counterexample:
  "truthy (geminiApiKey bothDownEnv) \<and> truthy (openaiApiKey bothDownEnv)
   \<and> outcome (callGeminiAPI (geminiFetch bothDownEnv) (geminiRandom bothDownEnv))
       = Inl (Error ''GEMINI_OVERLOADED: overloaded'')
   \<and> fallbackEligible ''GEMINI_OVERLOADED: overloaded''
   \<and> generated (generateAIResponse bothDownEnv) = Inl (Error ''GEMINI_OVERLOADED: overloaded'')
   \<and> openaiCalls (generateAIResponse bothDownEnv) = 3"
  by (simp add: generateAIResponse_def bothDownEnv_def overloadedEnv_def truthy_def
      overloaded_gemini down_openai fallbackEligible_def)

text \<open>
  C6, as amended. With the primary provider configured, \<^verbatim>\<open>generateAIResponse\<close> sends its
  first request to the primary, and a success of the primary is returned as such with no
  request to the secondary. If the primary fails with an error classified as overload or
  rate-limited (its message holds \<^verbatim>\<open>GEMINI_OVERLOADED\<close> or \<^verbatim>\<open>GEMINI_RATE_LIMITED\<close>), a
  secondary provider is configured and the call of the secondary succeeds, the response
  is the one of the secondary and the provider is marked \<^verbatim>\<open>OpenAI (fallback)\<close>; if the
  call of the secondary fails too, the error of the primary is thrown. For every other
  error of the primary, that error is thrown unchanged and the secondary is not called.
\<close>

theorem generate_failover:
  assumes "truthy (geminiApiKey env)"
  shows "1 \<le> geminiCalls (generateAIResponse env)
    \<and> (outcome (callGeminiAPI (geminiFetch env) (geminiRandom env)) = Inr response \<longrightarrow>
         generated (generateAIResponse env) = Inr (response, ''Gemini'')
         \<and> openaiCalls (generateAIResponse env) = 0)
    \<and> (outcome (callGeminiAPI (geminiFetch env) (geminiRandom env)) = Inl (Error message)
         \<and> fallbackEligible message \<and> truthy (openaiApiKey env)
         \<and> outcome (callOpenAIFallback (openaiFetch env) (openaiRandom env)) = Inr answer \<longrightarrow>
         generated (generateAIResponse env) = Inr (answer, ''OpenAI (fallback)''))
    \<and> (outcome (callGeminiAPI (geminiFetch env) (geminiRandom env)) = Inl (Error message)
         \<and> fallbackEligible message \<and> truthy (openaiApiKey env)
         \<and> outcome (callOpenAIFallback (openaiFetch env) (openaiRandom env)) = Inl fallbackError \<longrightarrow>
         generated (generateAIResponse env) = Inl (Error message))
    \<and> (outcome (callGeminiAPI (geminiFetch env) (geminiRandom env)) = Inl (Error message)
         \<and> \<not> fallbackEligible message \<longrightarrow>
         generated (generateAIResponse env) = Inl (Error message)
         \<and> openaiCalls (generateAIResponse env) = 0)"
proof -
  have calls: "geminiCalls (generateAIResponse env)
      = attempts (callGeminiAPI (geminiFetch env) (geminiRandom env))"
    using assms by (simp add: generateAIResponse_def Let_def split: sum.split thrown.split)
  show ?thesis
    using assms callGeminiAPI_attempts [of "geminiFetch env" "geminiRandom env"]
    by (simp add: calls) (simp add: generateAIResponse_def Let_def)
qed

theorem generate_failover_witness:
  "truthy (geminiApiKey overloadedEnv) \<and> truthy (openaiApiKey overloadedEnv)
   \<and> outcome (callGeminiAPI (geminiFetch overloadedEnv) (geminiRandom overloadedEnv))
       = Inl (Error ''GEMINI_OVERLOADED: overloaded'')
   \<and> fallbackEligible ''GEMINI_OVERLOADED: overloaded''
   \<and> outcome (callOpenAIFallback (openaiFetch overloadedEnv) (openaiRandom overloadedEnv))
       = Inr ''An answer.''
   \<and> generated (generateAIResponse overloadedEnv) = Inr (''An answer.'', ''OpenAI (fallback)'')
   \<and> 1 \<le> geminiCalls (generateAIResponse overloadedEnv)"
proof -
  have k: "truthy (geminiApiKey overloadedEnv)" "truthy (openaiApiKey overloadedEnv)"
    by (simp_all add: overloadedEnv_def truthy_def)
  have g: "outcome (callGeminiAPI (geminiFetch overloadedEnv) (geminiRandom overloadedEnv))
       = Inl (Error ''GEMINI_OVERLOADED: overloaded'')"
    by (simp add: overloadedEnv_def overloaded_gemini)
  have e: "fallbackEligible ''GEMINI_OVERLOADED: overloaded''"
    by (simp add: fallbackEligible_def)
  have f: "outcome (callOpenAIFallback (openaiFetch overloadedEnv) (openaiRandom overloadedEnv))
       = Inr ''An answer.''"
    by (simp add: overloadedEnv_def answering_openai)
  from generate_failover [OF k(1), of _ "''GEMINI_OVERLOADED: overloaded''" "''An answer.''"] k g e f
  show ?thesis by simp
qed

section \<open>Properties of the retrieval function\<close>

lemma selected_SomeD:
  assumes "selected FunctionVariable distance q thr (Some owner) (dc, d) = Some (k, dc', d')"
  shows "dc' = dc \<and> d' = d \<and> doc_user_id d = owner \<and> doc_status d = ''completed'' \<and> 1 - k > thr"
proof (cases "chunk_embedding dc")
  case None
  with assms show ?thesis by (simp add: selected_def userIdIsNull_def)
next
  case (Some e)
  show ?thesis
  proof (cases "doc_user_id d = owner \<and> doc_status d = ''completed'' \<and> 1 - distance e q > thr")
    case True
    with assms Some show ?thesis by (simp add: selected_def userIdIsNull_def)
  next
    case False
    with assms Some show ?thesis by (simp add: selected_def userIdIsNull_def)
  qed
qed

lemma joined_iff:
  "(dc, d) \<in> set (joined chunks docs) \<longleftrightarrow>
     dc \<in> set chunks \<and> d \<in> set docs \<and> document_id dc = doc_id d"
  by (auto simp: joined_def)

lemma candidates_sound:
  assumes "(k, dc, d) \<in> set (List.map_filter (selected FunctionVariable distance q thr (Some owner)) (joined chunks docs))"
  shows "dc \<in> set chunks \<and> d \<in> set docs \<and> document_id dc = doc_id d
       \<and> doc_user_id d = owner \<and> doc_status d = ''completed'' \<and> 1 - k > thr"
proof -
  let ?sel = "selected FunctionVariable distance q thr (Some owner)"
  from assms have "(k, dc, d) \<in> (\<lambda>p. the (?sel p)) ` {p \<in> set (joined chunks docs). ?sel p \<noteq> None}"
    by (simp add: List.map_filter_def comp_def)
  then obtain p where p: "p \<in> set (joined chunks docs)" "?sel p \<noteq> None" "(k, dc, d) = the (?sel p)"
    by (elim imageE CollectE conjE)
  from p(2,3) have sel: "?sel p = Some (k, dc, d)"
    by (cases "?sel p") simp_all
  obtain dc0 d0 where p0: "p = (dc0, d0)" by (cases p)
  from sel [unfolded p0] have "dc = dc0 \<and> d = d0 \<and> doc_user_id d0 = owner
      \<and> doc_status d0 = ''completed'' \<and> 1 - k > thr"
    by (rule selected_SomeD)
  with p(1) p0 show ?thesis by (simp add: joined_iff)
qed

lemma similarity_descending:
  "sorted_wrt (\<lambda>a b. a \<ge> b) (map similarity (map toRow (take n (sort_key fst (xs :: (real \<times> 'v document_chunk \<times> document) list)))))"
proof -
  have "sorted (map fst (sort_key fst xs))"
    by (rule sorted_sort_key)
  then have "sorted (take n (map fst (sort_key fst xs)))"
    by (rule sorted_wrt_take)
  then have "sorted_wrt (\<lambda>a b. fst a \<le> fst b) (take n (sort_key fst xs))"
    by (simp add: take_map sorted_wrt_map)
  then have "sorted_wrt (\<lambda>a b. similarity (toRow a) \<ge> similarity (toRow b)) (take n (sort_key fst xs))"
    by (rule sorted_wrt_mono_rel [rotated]) (auto simp: toRow_def)
  then show ?thesis
    by (simp add: sorted_wrt_map)
qed

text \<open>
  What the query computes once \<^verbatim>\<open>user_id\<close> is read as the parameter, as the qualified
  reference beside it is: rows in descending order of similarity, at most
  \<open>match_count\<close> of them, each above the threshold and each of a document that the
  owner owns and that is completed. The owner is tested on the document; the column
  \<^verbatim>\<open>user_id\<close> of the chunk is not read.
\<close>

lemma matchRows_sample:
  "matchRows FunctionVariable (\<lambda>a b. \<bar>a - b\<bar>) sampleChunks sampleDocs 1 (1 / 2) 5 (Some ''alice'') =
     [\<lparr>row_id = ''c6'', row_document_id = ''d1'', row_content = js ''Some text.'',
        row_page_number = 1, row_chunk_index = 0, similarity = 9 / 10,
        documents = (''d1'', ''Contracts'', ''alice'')\<rparr>,
      \<lparr>row_id = ''c1'', row_document_id = ''d1'', row_content = js ''Some text.'',
        row_page_number = 1, row_chunk_index = 0, similarity = 7 / 10,
        documents = (''d1'', ''Contracts'', ''alice'')\<rparr>]"
  by code_simp

lemma matchRows_contract:
  fixes distance chunks docs query_embedding match_threshold match_count owner
  assumes "distinct (map doc_id docs)"
  defines "rows \<equiv> matchRows FunctionVariable distance chunks docs query_embedding match_threshold
                      match_count (Some owner)"
  shows "sorted_wrt (\<lambda>a b. a \<ge> b) (map similarity rows)"
    and "length rows \<le> nat match_count"
    and "r \<in> set rows \<Longrightarrow> similarity r > match_threshold"
    and "r \<in> set rows \<Longrightarrow> d \<in> set docs \<Longrightarrow> doc_id d = row_document_id r \<Longrightarrow>
           doc_user_id d = owner \<and> doc_status d = ''completed''"
proof -
  define cands where "cands = List.map_filter
      (selected FunctionVariable distance query_embedding match_threshold (Some owner))
      (joined chunks docs)"
  have rows: "rows = map toRow (take (nat match_count) (sort_key fst cands))"
    by (simp add: rows_def matchRows_def cands_def)
  show "sorted_wrt (\<lambda>a b. a \<ge> b) (map similarity rows)"
    unfolding rows by (rule similarity_descending)
  show "length rows \<le> nat match_count"
    by (simp add: rows)
  have origin: "\<exists>k d0. similarity r = 1 - k \<and> row_document_id r = doc_id d0 \<and> d0 \<in> set docs
      \<and> doc_user_id d0 = owner \<and> doc_status d0 = ''completed'' \<and> 1 - k > match_threshold"
    if "r \<in> set rows" for r
  proof -
    from that obtain c where c: "c \<in> set (take (nat match_count) (sort_key fst cands))" "r = toRow c"
      by (auto simp: rows)
    then have in_cands: "c \<in> set cands"
      by (auto dest: in_set_takeD)
    obtain k dc d0 where kd: "c = (k, dc, d0)" by (cases c)
    from in_cands [unfolded kd cands_def]
    have s: "dc \<in> set chunks \<and> d0 \<in> set docs \<and> document_id dc = doc_id d0
       \<and> doc_user_id d0 = owner \<and> doc_status d0 = ''completed'' \<and> 1 - k > match_threshold"
      by (rule candidates_sound)
    show ?thesis
    proof (intro exI conjI)
      show "similarity r = 1 - k" using c(2) kd by (simp add: toRow_def)
      show "row_document_id r = doc_id d0" using c(2) kd s by (simp add: toRow_def)
      show "d0 \<in> set docs" "doc_user_id d0 = owner"
        "doc_status d0 = ''completed''" "1 - k > match_threshold"
        using s by simp_all
    qed
  qed
  show "similarity r > match_threshold" if "r \<in> set rows"
  proof -
    from origin [OF that] obtain k where "similarity r = 1 - k" "1 - k > match_threshold"
      by blast
    then show ?thesis by simp
  qed
  show "doc_user_id d = owner \<and> doc_status d = ''completed''"
    if "r \<in> set rows" "d \<in> set docs" "doc_id d = row_document_id r"
  proof -
    from origin [OF that(1)] obtain d0 where o: "row_document_id r = doc_id d0" "d0 \<in> set docs"
      "doc_user_id d0 = owner" "doc_status d0 = ''completed''"
      by blast
    from assms(1) have "inj_on doc_id (set docs)" by (simp add: distinct_map)
    moreover from that(3) o(1) have "doc_id d = doc_id d0" by simp
    ultimately have "d = d0" using that(2) o(2) by (rule inj_onD)
    with o(3,4) show ?thesis by simp
  qed
qed

lemma resolve_user_id: "resolveName ''user_id'' = Inl (AmbiguousColumn ''user_id'')"
  by (simp add: resolveName_def documentChunksColumns_def documentsColumns_def)

text \<open>
  C3, on the code. Every call of \<^verbatim>\<open>match_documents\<close> fails, whatever the query embedding,
  the owner, the threshold and the limit: the \<^verbatim>\<open>user_id\<close> of \<^verbatim>\<open>user_id IS NULL\<close> is not
  qualified and is a column of both joined tables (and a parameter), so the database
  rejects the reference as ambiguous and no sequence of rows is returned.
\<close>

theorem match_documents_ambiguous:
  "match_documents distance chunks docs query_embedding match_threshold match_count user_id
     = Inl (AmbiguousColumn ''user_id'')"
  by (simp add: match_documents_def resolve_user_id)

section \<open>Properties of document ingestion\<close>








text \<open>Ingestion writes the owner of the document on every chunk row it adds for it.\<close>

lemma storeChunks_owner:
  assumes "\<forall>r \<in> set rows. document_id r = doc_id doc \<longrightarrow> chunk_user_id r = doc_user_id doc"
  shows "\<forall>r \<in> set (storeChunks env doc len pages i cs rows).
           document_id r = doc_id doc \<longrightarrow> chunk_user_id r = doc_user_id doc"
  using assms
proof (induction cs arbitrary: i rows)
  case Nil
  then show ?case by simp
next
  case (Cons c cs)
  show ?case
  proof (cases "embedChunk env i")
    case None
    with Cons.IH [OF Cons.prems, of "Suc i"] show ?thesis by simp
  next
    case (Some e)
    define row where "row = \<lparr>chunk_id = newChunkId env i, document_id = doc_id doc,
         chunk_user_id = doc_user_id doc, chunk_content = content c,
         page_number = pageNumber env (startIndex c) len pages, chunk_index = int i,
         chunk_embedding = Some e\<rparr>"
    have "\<forall>r \<in> set (rows @ [row]). document_id r = doc_id doc \<longrightarrow> chunk_user_id r = doc_user_id doc"
      using Cons.prems by (simp add: row_def)
    from Cons.IH [OF this, of "Suc i"] Some show ?thesis
      by (simp add: row_def)
  qed
qed












section \<open>Properties of the chat function\<close>

lemma query_embedded:
  "queryEmbedding (\<lambda>k. Fetched (HttpResponse 200 [] (Inr (Some [1 / 10, 3 / 10])))) (\<lambda>k. 0) =
     \<lparr>outcome = Inr [1 / 10, 3 / 10], attempts = 1, delays = []\<rparr>"
  by (simp add: queryEmbedding_def retryWithBackoff_def retryLoop.simps ok_def)

text \<open>
  The path taken when chunks were retrieved but the context built from them is empty:
  the assistant message is inserted before the response is returned.
\<close>

lemma chat_no_context_recorded:
  "serve blankChunkEnv [] =
     (Response200 generalResponse [] None None,
      [\<lparr>session_id = ''s1'', role = ''assistant'', message_content = generalResponse,
        message_sources = []\<rparr>])"
  by (simp add: serve_def blankChunkEnv_def strangerEnv_def overloadedEnv_def truthy_def
      query_embedded retrievedChunks_def orEmpty_def insertMessage_def)

text \<open>
  C1, on the code. For every chat request whose retrieval step yields zero chunks, the
  function answers with status 200, the fixed response on missing documents and an empty
  list of sources, and it returns before any insert: the recorded messages are the same
  as before, so no assistant message is recorded on this path.
\<close>

theorem chat_no_chunks_unrecorded:
  assumes "chatBody env = Inr (sessionId, message, userId)"
    and "truthy (geminiApiKey (providers env))"
    and "outcome (queryEmbedding (queryFetch env) (queryRandom env)) = Inr embedded"
    and "retrievedChunks env = []"
  shows "serve env messages = (Response200 noDocumentsResponse [] None None, messages)"
  using assms by (simp add: serve_def)

theorem chat_no_chunks_unrecorded_witness:
  "chatBody strangerEnv = Inr (''s1'', ''What is the notice period?'', ''carol'')
   \<and> truthy (geminiApiKey (providers strangerEnv))
   \<and> outcome (queryEmbedding (queryFetch strangerEnv) (queryRandom strangerEnv)) = Inr [1 / 10, 3 / 10]
   \<and> retrievedChunks strangerEnv = []
   \<and> serve strangerEnv [] = (Response200 noDocumentsResponse [] None None, [])"
proof -
  have b: "chatBody strangerEnv = Inr (''s1'', ''What is the notice period?'', ''carol'')"
    by (simp add: strangerEnv_def)
  have k: "truthy (geminiApiKey (providers strangerEnv))"
    by (simp add: strangerEnv_def overloadedEnv_def truthy_def)
  have e: "outcome (queryEmbedding (queryFetch strangerEnv) (queryRandom strangerEnv)) = Inr [1 / 10, 3 / 10]"
    by (simp add: strangerEnv_def query_embedded)
  have r: "retrievedChunks strangerEnv = []"
    by (simp add: strangerEnv_def retrievedChunks_def orEmpty_def)
  from chat_no_chunks_unrecorded [OF b k e r, of "[]"] b k e r show ?thesis
    by simp
qed

end
